theory Spec2Isabelle
  imports Complex_Main "HOL-Library.Sublist"
begin

section \<open>Python values and the primitives the program relies on\<close>

text \<open>
  A stored document is what the driver hands to \<^verbatim>\<open>main.py\<close>: a Python dict whose values
  are \<^verbatim>\<open>None\<close>, booleans, integers, floats, strings, lists, dicts and the three BSON
  wrapper classes that \<^verbatim>\<open>serialize\<close> looks for. A dict is an association list in
  insertion order; a key is looked up at its first binding. An \<^verbatim>\<open>ObjectId\<close> and a
  \<^verbatim>\<open>Decimal128\<close> are represented by the text \<^verbatim>\<open>str(obj)\<close> gives, a
  \<^verbatim>\<open>datetime\<close> by the text \<^verbatim>\<open>obj.isoformat()\<close> gives.
  Floats are kept abstract (the type variable \<open>'f\<close>).
\<close>

datatype 'f pyval =
    VNull
  | VBool bool
  | VInt int
  | VFloat 'f
  | VStr string
  | VList "'f pyval list"
  | VDict "(string \<times> 'f pyval) list"
  | VObjectId string
  | VDecimal128 string
  | VDatetime string

type_synonym 'f pydict = "(string \<times> 'f pyval) list"

text \<open>A Python number: the running sums of \<^verbatim>\<open>get_stats\<close> are integers or floats.\<close>

datatype 'f number = NInt int | NFloat 'f

text \<open>
  The operations of the Python runtime and of the document store that the program uses and
  that are not reproduced here: float comparison and arithmetic, \<^verbatim>\<open>round(x / n, k)\<close>,
  \<^verbatim>\<open>str()\<close> of a float, list or dict, and the order the store sorts field values by.
  \<open>float_of_int\<close> and \<open>round_div\<close> return \<open>None\<close> where Python raises
  \<^verbatim>\<open>OverflowError\<close>. \<open>int_max_str_digits\<close> is the interpreter's limit on the
  length of a decimal string that \<^verbatim>\<open>int()\<close> converts: \<open>None\<close> where there is no
  limit (before Python 3.11, or with the limit switched off), otherwise the limit, which
  the interpreter does not let go below 640.
\<close>

record 'f platform =
  float_eq_int :: "'f \<Rightarrow> int \<Rightarrow> bool"
  float_eq :: "'f \<Rightarrow> 'f \<Rightarrow> bool"
  float_add :: "'f \<Rightarrow> 'f \<Rightarrow> 'f"
  float_of_int :: "int \<Rightarrow> 'f option"
  round_div :: "'f number \<Rightarrow> int \<Rightarrow> nat \<Rightarrow> 'f option"
  str_other :: "'f pyval \<Rightarrow> string"
  bson_le :: "'f pyval \<Rightarrow> 'f pyval \<Rightarrow> bool"
  int_max_str_digits :: "nat option"

datatype py_error = KeyError | TypeError | OverflowError | ValueError

subsection \<open>Strings\<close>

text \<open>
  A string is a list of 8-bit characters, the character with code \<open>n\<close> standing for the
  Unicode code point \<open>n\<close>: the strings of the model are those over U+0000 to U+00FF
  (ASCII and the Latin-1 supplement). The character classes and the case mapping are those
  of Python's \<^verbatim>\<open>str\<close> on these code points.

  \<^verbatim>\<open>c.isdigit()\<close>: the ten decimal digits and the superscripts two, three and one
  (U+00B2, U+00B3, U+00B9).
\<close>

definition isdigit :: "char \<Rightarrow> bool" where
  "isdigit c \<longleftrightarrow>
     (48 \<le> (of_char c :: nat) \<and> (of_char c :: nat) \<le> 57) \<or> (of_char c :: nat) \<in> {178, 179, 185}"

text \<open>
  \<^verbatim>\<open>c.isspace()\<close>: tab to carriage return, the four separators U+001C to U+001F, the
  space, the next-line control U+0085 and the no-break space U+00A0.
\<close>

definition isspace :: "char \<Rightarrow> bool" where
  "isspace c \<longleftrightarrow> (of_char c :: nat) \<in> {9, 10, 11, 12, 13, 28, 29, 30, 31, 32, 133, 160}"

text \<open>\<^verbatim>\<open>s.strip()\<close>\<close>

definition strip :: "string \<Rightarrow> string" where
  "strip s = rev (dropWhile isspace (rev (dropWhile isspace s)))"

text \<open>
  \<^verbatim>\<open>c.upper()\<close>: the letters a to z and the Latin-1 letters U+00E0 to U+00FE (the
  division sign U+00F7 apart) move down by 32, the sharp s (U+00DF) becomes \<^verbatim>\<open>SS\<close>,
  every other character stays. The upper case of the micro sign (U+00B5) and of y with
  diaeresis (U+00FF) lies outside Latin-1 (U+039C, U+0178): the result is \<open>None\<close>, a
  string that no string of this model is equal to.
\<close>

definition upper_char :: "char \<Rightarrow> string option" where
  "upper_char c =
     (let n = (of_char c :: nat)
      in if (97 \<le> n \<and> n \<le> 122) \<or> (224 \<le> n \<and> n \<le> 254 \<and> n \<noteq> 247) then Some [char_of (n - 32)]
         else if n = 223 then Some ''SS''
         else if n = 181 \<or> n = 255 then None
         else Some [c])"

text \<open>\<^verbatim>\<open>s.upper()\<close>\<close>

fun upper :: "string \<Rightarrow> string option" where
  "upper [] = Some []"
| "upper (c # cs) =
     (case upper_char c of
        None \<Rightarrow> None
      | Some u \<Rightarrow> (case upper cs of None \<Rightarrow> None | Some us \<Rightarrow> Some (u @ us)))"

declare upper.simps [simp del]

text \<open>\<^verbatim>\<open>"".join(c for c in s if c.isdigit())\<close>\<close>

definition digits_of :: "string \<Rightarrow> string" where
  "digits_of s = filter isdigit s"

text \<open>The value of a string of decimal digits.\<close>

definition int_of_digits :: "string \<Rightarrow> int" where
  "int_of_digits ds = foldl (\<lambda>n c. 10 * n + (int (of_char c) - 48)) 0 ds"

text \<open>
  \<^verbatim>\<open>int(digits)\<close> on a string of \<^verbatim>\<open>isdigit\<close> characters: \<^verbatim>\<open>ValueError\<close> on the
  empty string, on a superscript digit (which \<^verbatim>\<open>int\<close> does not read as a decimal) and
  on a string longer than the interpreter's limit.
\<close>

definition decimal :: "char \<Rightarrow> bool" where
  "decimal c \<longleftrightarrow> 48 \<le> (of_char c :: nat) \<and> (of_char c :: nat) \<le> 57"

definition py_int :: "'f platform \<Rightarrow> string \<Rightarrow> py_error + int" where
  "py_int P ds =
     (if ds = [] \<or> \<not> list_all decimal ds then Inl ValueError
      else if (case int_max_str_digits P of None \<Rightarrow> False | Some m \<Rightarrow> max 640 m < length ds)
      then Inl ValueError
      else Inr (int_of_digits ds))"

fun str_nat :: "nat \<Rightarrow> string" where
  "str_nat n =
     (if n < 10 then [char_of (48 + n)]
      else str_nat (n div 10) @ [char_of (48 + n mod 10)])"

declare str_nat.simps [simp del]

definition str_int :: "int \<Rightarrow> string" where
  "str_int i = (if i < 0 then CHR ''-'' # str_nat (nat (- i)) else str_nat (nat i))"

text \<open>\<^verbatim>\<open>pat in s\<close> on strings: \<open>pat\<close> occurs in \<open>s\<close> as a contiguous substring.\<close>

fun contains :: "string \<Rightarrow> string \<Rightarrow> bool" where
  "contains pat [] = (pat = [])"
| "contains pat (c # cs) = (prefix pat (c # cs) \<or> contains pat cs)"

subsection \<open>Truthiness, \<^verbatim>\<open>str()\<close>, dict access\<close>

fun truthy :: "'f platform \<Rightarrow> 'f pyval \<Rightarrow> bool" where
  "truthy P VNull = False"
| "truthy P (VBool b) = b"
| "truthy P (VInt n) = (n \<noteq> 0)"
| "truthy P (VFloat x) = (\<not> float_eq_int P x 0)"
| "truthy P (VStr s) = (s \<noteq> [])"
| "truthy P (VList xs) = (xs \<noteq> [])"
| "truthy P (VDict kvs) = (kvs \<noteq> [])"
| "truthy P (VObjectId s) = True"
| "truthy P (VDecimal128 s) = True"
| "truthy P (VDatetime s) = True"

text \<open>\<^verbatim>\<open>a or b\<close>\<close>

definition py_or :: "'f platform \<Rightarrow> 'f pyval \<Rightarrow> 'f pyval \<Rightarrow> 'f pyval" where
  "py_or P a b = (if truthy P a then a else b)"

text \<open>
  \<^verbatim>\<open>str(v)\<close>. \<^verbatim>\<open>str\<close> of a datetime is its ISO form with a space for the
  \<^verbatim>\<open>T\<close> separator (the character at index 10).
\<close>

fun py_str :: "'f platform \<Rightarrow> 'f pyval \<Rightarrow> string" where
  "py_str P VNull = ''None''"
| "py_str P (VBool b) = (if b then ''True'' else ''False'')"
| "py_str P (VInt n) = str_int n"
| "py_str P (VStr s) = s"
| "py_str P (VObjectId s) = s"
| "py_str P (VDecimal128 s) = s"
| "py_str P (VDatetime s) = take 10 s @ (if length s > 10 then CHR '' '' # drop 11 s else [])"
| "py_str P v = str_other P v"

text \<open>\<^verbatim>\<open>d.get(k, default)\<close>\<close>

definition dict_get :: "'f pydict \<Rightarrow> string \<Rightarrow> 'f pyval \<Rightarrow> 'f pyval" where
  "dict_get d k dflt = (case map_of d k of Some v \<Rightarrow> v | None \<Rightarrow> dflt)"

text \<open>\<^verbatim>\<open>d[k] = v\<close>: an existing key keeps its position, a new key goes to the end.\<close>

fun dict_set :: "string \<Rightarrow> 'f pyval \<Rightarrow> 'f pydict \<Rightarrow> 'f pydict" where
  "dict_set k v [] = [(k, v)]"
| "dict_set k v (p # ps) = (if fst p = k then (k, v) # ps else p # dict_set k v ps)"

text \<open>\<^verbatim>\<open>d.update(e)\<close>\<close>

definition dict_update :: "'f pydict \<Rightarrow> 'f pydict \<Rightarrow> 'f pydict" where
  "dict_update d e = fold (\<lambda>kv acc. dict_set (fst kv) (snd kv) acc) e d"

text \<open>\<^verbatim>\<open>d.pop(k, None)\<close>, the popped value dropped.\<close>

definition dict_pop :: "string \<Rightarrow> 'f pydict \<Rightarrow> 'f pydict" where
  "dict_pop k d = filter (\<lambda>kv. fst kv \<noteq> k) d"

text \<open>\<^verbatim>\<open>d[k]\<close>\<close>

definition dict_item :: "'f pydict \<Rightarrow> string \<Rightarrow> py_error + 'f pyval" where
  "dict_item d k = (case map_of d k of Some v \<Rightarrow> Inr v | None \<Rightarrow> Inl KeyError)"

section \<open>The document normalizer\<close>

primrec serialize :: "'f pyval \<Rightarrow> 'f pyval" where
  "serialize (VDict kvs) = VDict (map (map_prod id serialize) kvs)"
| "serialize (VList xs) = VList (map serialize xs)"
| "serialize (VObjectId s) = VStr s"
| "serialize (VDecimal128 s) = VStr s"
| "serialize (VDatetime s) = VStr s"
| "serialize VNull = VNull"
| "serialize (VBool b) = VBool b"
| "serialize (VInt n) = VInt n"
| "serialize (VFloat x) = VFloat x"
| "serialize (VStr s) = VStr s"

text \<open>\<^verbatim>\<open>serialize\<close> on the document itself, which is a dict.\<close>

definition serialize_doc :: "'f pydict \<Rightarrow> 'f pydict" where
  "serialize_doc d = map (map_prod id serialize) d"

text \<open>\<^verbatim>\<open>isinstance(output, dict) and len(output) > 0\<close>\<close>

fun nonempty_dict :: "'f pyval \<Rightarrow> bool" where
  "nonempty_dict (VDict kvs) = (length kvs > 0)"
| "nonempty_dict v = False"

fun as_dict :: "'f pyval \<Rightarrow> 'f pydict" where
  "as_dict (VDict kvs) = kvs"
| "as_dict v = []"

definition flatten_lead :: "'f platform \<Rightarrow> 'f pydict \<Rightarrow> 'f pydict" where
  "flatten_lead P doc0 =
     (let doc = dict_pop ''_id'' (serialize_doc doc0);
          output = dict_get doc ''output'' VNull;
          has_output = nonempty_dict output;
          base = [(''sessionId'', VStr (py_str P (dict_get doc ''sessionId'' (VStr '''')))),
                  (''messageLength'', py_or P (dict_get doc ''messageLength'' (VInt 0)) (VInt 0)),
                  (''analysedAt'', dict_get doc ''analysedAt'' VNull),
                  (''leadAnalysed'', dict_get doc ''leadAnalysed'' (VBool False)),
                  (''hasOutput'', VBool has_output)]
      in if has_output then
           dict_update base
             [(''qualified'', dict_get (as_dict output) ''qualified'' (VBool False)),
              (''intent'', dict_get (as_dict output) ''intent'' (VStr ''UNKNOWN'')),
              (''confidence'', py_or P (dict_get (as_dict output) ''confidence'' (VInt 0)) (VInt 0)),
              (''signals'', py_or P (dict_get (as_dict output) ''signals'' (VList [])) (VList [])),
              (''summary'', py_or P (dict_get (as_dict output) ''summary'' (VList [])) (VList []))]
         else
           dict_update base
             [(''qualified'', VBool False), (''intent'', VStr ''PENDING''),
              (''confidence'', VInt 0), (''signals'', VList []), (''summary'', VList [])])"

fun chat_loop :: "'f platform \<Rightarrow> 'f pyval list \<Rightarrow> 'f pyval list \<Rightarrow> 'f pyval list" where
  "chat_loop P [] chat = chat"
| "chat_loop P (m # ms) chat =
     (case m of
        VDict kvs \<Rightarrow>
          (let msg_type = dict_get kvs ''type'' (VStr ''unknown'');
               data = dict_get kvs ''data'' VNull;
               content = (case data of
                            VDict dkvs \<Rightarrow> dict_get dkvs ''content'' (VStr '''')
                          | VStr s \<Rightarrow> VStr s
                          | _ \<Rightarrow> VStr '''')
           in if truthy P content
              then chat_loop P ms
                     (chat @ [VDict [(''type'', msg_type), (''content'', VStr (py_str P content))]])
              else chat_loop P ms chat)
      | _ \<Rightarrow> chat_loop P ms chat)"

definition extract_chat :: "'f platform \<Rightarrow> 'f pydict \<Rightarrow> 'f pyval list" where
  "extract_chat P doc =
     (let raw = serialize_doc doc;
          messages = dict_get raw ''messages'' (VList [])
      in case messages of VList ms \<Rightarrow> chat_loop P ms [] | _ \<Rightarrow> [])"

section \<open>The document store\<close>

text \<open>
  Modelled from the spec: the document store (a MongoDB collection behind the driver) is an
  external collaborator and not part of the repository. A collection is the list of its
  documents in the order an unfiltered scan returns them. The program issues four filters,
  all on \<^verbatim>\<open>sessionId\<close>: none, equality with a string, equality with an integer and
  \<^verbatim>\<open>$regex\<close> with a string of digits, which is an unanchored substring search on
  string-valued fields. \<^verbatim>\<open>find_one\<close> returns the first match.
\<close>

datatype query = QAll | QSessionStr string | QSessionInt int | QSessionRegex string

fun matches :: "query \<Rightarrow> 'f pydict \<Rightarrow> bool" where
  "matches QAll d = True"
| "matches (QSessionStr s) d = (map_of d ''sessionId'' = Some (VStr s))"
| "matches (QSessionInt n) d = (map_of d ''sessionId'' = Some (VInt n))"
| "matches (QSessionRegex pat) d =
     (case map_of d ''sessionId'' of Some (VStr s) \<Rightarrow> contains pat s | _ \<Rightarrow> False)"

definition find_one :: "'f pydict list \<Rightarrow> query \<Rightarrow> 'f pydict option" where
  "find_one col q = List.find (matches q) col"

text \<open>
  An integer in a filter has to fit the store's 8-byte integers: the driver raises
  \<^verbatim>\<open>OverflowError\<close> otherwise (the digits of an identifier are never negative).
\<close>

definition find_one_int :: "'f pydict list \<Rightarrow> int \<Rightarrow> py_error + 'f pydict option" where
  "find_one_int col n =
     (if n \<le> 9223372036854775807 then Inr (find_one col (QSessionInt n)) else Inl OverflowError)"

text \<open>\<^verbatim>\<open>col.find(q).limit(n)\<close>\<close>

definition find_limit :: "'f pydict list \<Rightarrow> query \<Rightarrow> nat \<Rightarrow> 'f pydict list" where
  "find_limit col q n = take n (filter (matches q) col)"

text \<open>
  \<^verbatim>\<open>col.find(q).sort(field, dir).limit(n)\<close>: the matching documents in the store's
  order on the field's value, a missing field counting as null, then the first \<open>n\<close>.
\<close>

fun insort_doc :: "('f pyval \<Rightarrow> 'f pyval \<Rightarrow> bool) \<Rightarrow> string \<Rightarrow> 'f pydict \<Rightarrow> 'f pydict list \<Rightarrow> 'f pydict list" where
  "insort_doc le field d [] = [d]"
| "insort_doc le field d (e # es) =
     (if le (dict_get d field VNull) (dict_get e field VNull) then d # e # es
      else e # insort_doc le field d es)"

definition find_sort_limit ::
  "'f platform \<Rightarrow> 'f pydict list \<Rightarrow> query \<Rightarrow> string \<Rightarrow> int \<Rightarrow> nat \<Rightarrow> 'f pydict list" where
  "find_sort_limit P col q field dir n =
     take n (foldr (insort_doc (if dir = 1 then bson_le P else (\<lambda>a b. bson_le P b a)) field)
               (filter (matches q) col) [])"

section \<open>The identifier resolver\<close>

text \<open>\<^verbatim>\<open>if doc:\<close> on the result of a lookup: \<^verbatim>\<open>None\<close> and the empty dict are falsy.\<close>

fun found :: "'f pydict option \<Rightarrow> bool" where
  "found None = False"
| "found (Some d) = (d \<noteq> [])"

text \<open>Attempt 4, the loop over the cursor.\<close>

fun scan_docs :: "'f platform \<Rightarrow> string \<Rightarrow> string \<Rightarrow> 'f pydict list \<Rightarrow> 'f pydict option" where
  "scan_docs P sid digits [] = None"
| "scan_docs P sid digits (d # ds) =
     (let doc_sid = py_str P (dict_get d ''sessionId'' (VStr ''''))
      in if doc_sid = sid \<or> contains digits doc_sid then Some d
         else scan_docs P sid digits ds)"

definition find_by_session :: "'f platform \<Rightarrow> 'f pydict list \<Rightarrow> string \<Rightarrow> 'f pydict option" where
  "find_by_session P col session_id =
     (let sid = strip session_id;
          digits = digits_of sid;
          doc1 = find_one col (QSessionStr sid)
      in if found doc1 then doc1
         else
           let doc2 = (if digits \<noteq> [] then
                         (case py_int P digits of
                            Inr n \<Rightarrow> (case find_one_int col n of Inr doc \<Rightarrow> doc | Inl e \<Rightarrow> None)
                          | Inl e \<Rightarrow> None)
                       else None)
           in if found doc2 then doc2
              else
                let doc3 = (if digits \<noteq> [] then find_one col (QSessionRegex digits) else None)
                in if found doc3 then doc3
                   else scan_docs P sid digits (find_limit col QAll 200))"

section \<open>The endpoints\<close>

text \<open>
  What a request ends in when it is not answered: the framework's rejection of a query
  parameter outside its declared range, an \<^verbatim>\<open>HTTPException\<close> of the handler, or an
  exception the handler does not catch.
\<close>

datatype failure = Invalid | HTTPException nat string | Raised py_error

definition and_then :: "'e + 'a \<Rightarrow> ('a \<Rightarrow> 'e + 'b) \<Rightarrow> 'e + 'b" where
  "and_then m f = (case m of Inl e \<Rightarrow> Inl e | Inr v \<Rightarrow> f v)"

subsection \<open>\<^verbatim>\<open>GET /api/leads/{session_id}\<close>\<close>

definition not_found_detail :: "string \<Rightarrow> string" where
  "not_found_detail session_id = ''Lead '' @ [CHR 0x27] @ session_id @ [CHR 0x27] @ '' not found''"

definition get_lead :: "'f platform \<Rightarrow> 'f pydict list \<Rightarrow> string \<Rightarrow> failure + 'f pydict" where
  "get_lead P col session_id =
     (let doc = find_by_session P col session_id
      in if \<not> found doc then Inl (HTTPException 404 (not_found_detail session_id))
         else
           let lead = flatten_lead P (case doc of Some d \<Rightarrow> d | None \<Rightarrow> [])
           in Inr (dict_set ''chat'' (VList (extract_chat P (case doc of Some d \<Rightarrow> d | None \<Rightarrow> []))) lead))"

subsection \<open>\<^verbatim>\<open>GET /api/leads\<close>\<close>

text \<open>\<^verbatim>\<open>v == b\<close> for a boolean \<open>b\<close>: booleans are the integers 0 and 1.\<close>

fun eq_bool :: "'f platform \<Rightarrow> 'f pyval \<Rightarrow> bool \<Rightarrow> bool" where
  "eq_bool P (VBool c) b = (c = b)"
| "eq_bool P (VInt n) b = (n = (if b then 1 else 0))"
| "eq_bool P (VFloat x) b = float_eq_int P x (if b then 1 else 0)"
| "eq_bool P v b = False"

text \<open>\<^verbatim>\<open>xs[i:j]\<close>\<close>

definition py_slice :: "'a list \<Rightarrow> int \<Rightarrow> int \<Rightarrow> 'a list" where
  "py_slice xs i j =
     (let n = int (length xs);
          lo = (if i < 0 then max (i + n) 0 else min i n);
          hi = (if j < 0 then max (j + n) 0 else min j n)
      in take (nat (hi - lo)) (drop (nat lo) xs))"

record 'f list_response =
  r_leads :: "'f pydict list"
  r_total :: int
  r_skip :: int
  r_limit :: int
  r_hasMore :: bool

text \<open>The three tests of the loop body: does the lead reach \<^verbatim>\<open>all_leads.append\<close>?\<close>

definition lead_kept :: "'f platform \<Rightarrow> string option \<Rightarrow> bool option \<Rightarrow> 'f pydict \<Rightarrow> py_error + bool" where
  "lead_kept P intent qualified lead =
     and_then (dict_item lead ''hasOutput'') (\<lambda>h.
       if \<not> truthy P h then Inr False
       else
         and_then (case intent of
                     None \<Rightarrow> Inr False
                   | Some q \<Rightarrow>
                       if q \<noteq> [] then
                         and_then (dict_item lead ''intent'') (\<lambda>v.
                           Inr (case upper q of Some u \<Rightarrow> v \<noteq> VStr u | None \<Rightarrow> True))
                       else Inr False) (\<lambda>wrong_intent.
           if wrong_intent then Inr False
           else
             and_then (case qualified of
                         None \<Rightarrow> Inr False
                       | Some b \<Rightarrow> and_then (dict_item lead ''qualified'') (\<lambda>v. Inr (\<not> eq_bool P v b))) (\<lambda>wrong_qualified.
               Inr (\<not> wrong_qualified))))"

fun leads_loop ::
  "'f platform \<Rightarrow> string option \<Rightarrow> bool option \<Rightarrow> 'f pydict list \<Rightarrow> 'f pydict list \<Rightarrow> py_error + 'f pydict list" where
  "leads_loop P intent qualified [] all_leads = Inr all_leads"
| "leads_loop P intent qualified (doc # docs) all_leads =
     (let lead = flatten_lead P doc
      in case lead_kept P intent qualified lead of
           Inl e \<Rightarrow> Inl e
         | Inr keep \<Rightarrow>
             leads_loop P intent qualified docs (if keep then all_leads @ [lead] else all_leads))"

definition mongo_query :: "string option \<Rightarrow> query" where
  "mongo_query search =
     (case search of
        None \<Rightarrow> QAll
      | Some s \<Rightarrow>
          if s \<noteq> [] then (let digits = digits_of s in if digits \<noteq> [] then QSessionRegex digits else QAll)
          else QAll)"

definition list_leads ::
  "'f platform \<Rightarrow> 'f pydict list \<Rightarrow> string option \<Rightarrow> string option \<Rightarrow> bool option \<Rightarrow> string \<Rightarrow> int \<Rightarrow> int
     \<Rightarrow> failure + 'f list_response" where
  "list_leads P col search intent qualified sort_order skip limit =
     (if \<not> ((sort_order = ''asc'' \<or> sort_order = ''desc'') \<and> 0 \<le> skip \<and> 1 \<le> limit \<and> limit \<le> 200) then Inl Invalid
      else
        let sort_dir = (if sort_order = ''desc'' then - 1 else 1)
        in case leads_loop P intent qualified
                  (find_sort_limit P col (mongo_query search) ''analysedAt'' sort_dir 500) [] of
             Inl e \<Rightarrow> Inl (Raised e)
           | Inr all_leads \<Rightarrow>
               (let total = int (length all_leads)
                in Inr \<lparr>r_leads = py_slice all_leads skip (skip + limit),
                        r_total = total, r_skip = skip, r_limit = limit,
                        r_hasMore = (skip + limit < total)\<rparr>))"

subsection \<open>\<^verbatim>\<open>GET /api/stats\<close>\<close>

text \<open>The numbers among the values: a boolean counts as the integer 0 or 1.\<close>

fun num_of_val :: "'f pyval \<Rightarrow> 'f number option" where
  "num_of_val (VBool b) = Some (NInt (if b then 1 else 0))"
| "num_of_val (VInt n) = Some (NInt n)"
| "num_of_val (VFloat x) = Some (NFloat x)"
| "num_of_val v = None"

fun num_add :: "'f platform \<Rightarrow> 'f number \<Rightarrow> 'f number \<Rightarrow> py_error + 'f number" where
  "num_add P (NInt a) (NInt b) = Inr (NInt (a + b))"
| "num_add P (NInt a) (NFloat y) =
     (case float_of_int P a of None \<Rightarrow> Inl OverflowError | Some x \<Rightarrow> Inr (NFloat (float_add P x y)))"
| "num_add P (NFloat x) (NInt b) =
     (case float_of_int P b of None \<Rightarrow> Inl OverflowError | Some y \<Rightarrow> Inr (NFloat (float_add P x y)))"
| "num_add P (NFloat x) (NFloat y) = Inr (NFloat (float_add P x y))"

text \<open>\<^verbatim>\<open>acc += v\<close> on a numeric accumulator: \<^verbatim>\<open>TypeError\<close> unless \<open>v\<close> is a number.\<close>

definition py_iadd :: "'f platform \<Rightarrow> 'f number \<Rightarrow> 'f pyval \<Rightarrow> py_error + 'f number" where
  "py_iadd P acc v = (case num_of_val v of None \<Rightarrow> Inl TypeError | Some n \<Rightarrow> num_add P acc n)"

text \<open>Dict keys: lists and dicts are unhashable; numbers are one key when they are equal.\<close>

fun hashable :: "'f pyval \<Rightarrow> bool" where
  "hashable (VList xs) = False"
| "hashable (VDict kvs) = False"
| "hashable v = True"

fun num_eq :: "'f platform \<Rightarrow> 'f number \<Rightarrow> 'f number \<Rightarrow> bool" where
  "num_eq P (NInt a) (NInt b) = (a = b)"
| "num_eq P (NInt a) (NFloat y) = float_eq_int P y a"
| "num_eq P (NFloat x) (NInt b) = float_eq_int P x b"
| "num_eq P (NFloat x) (NFloat y) = float_eq P x y"

definition key_eq :: "'f platform \<Rightarrow> 'f pyval \<Rightarrow> 'f pyval \<Rightarrow> bool" where
  "key_eq P a b =
     (case (num_of_val a, num_of_val b) of
        (Some x, Some y) \<Rightarrow> num_eq P x y
      | (None, None) \<Rightarrow> a = b
      | _ \<Rightarrow> False)"

text \<open>\<^verbatim>\<open>counts[k] = counts.get(k, 0) + 1\<close> for a hashable \<open>k\<close>.\<close>

fun count_incr :: "'f platform \<Rightarrow> 'f pyval \<Rightarrow> ('f pyval \<times> int) list \<Rightarrow> ('f pyval \<times> int) list" where
  "count_incr P k [] = [(k, 0 + 1)]"
| "count_incr P k (p # ps) =
     (if key_eq P (fst p) k then (fst p, snd p + 1) # ps else p # count_incr P k ps)"

record 'f stats_acc =
  total :: int
  qualified_count :: int
  confidence_sum :: "'f number"
  message_sum :: "'f number"
  intent_counts :: "('f pyval \<times> int) list"

text \<open>The body of the loop for a lead that has output.\<close>

definition stats_step :: "'f platform \<Rightarrow> 'f pydict \<Rightarrow> 'f stats_acc \<Rightarrow> py_error + 'f stats_acc" where
  "stats_step P lead acc =
     and_then (dict_item lead ''qualified'') (\<lambda>q.
       and_then (py_iadd P (confidence_sum acc)
                   (py_or P (dict_get lead ''confidence'' (VInt 0)) (VInt 0))) (\<lambda>csum.
         and_then (py_iadd P (message_sum acc)
                     (py_or P (dict_get lead ''messageLength'' (VInt 0)) (VInt 0))) (\<lambda>msum.
           let intent = dict_get lead ''intent'' (VStr ''UNKNOWN'')
           in if \<not> hashable intent then Inl TypeError
              else Inr \<lparr>total = total acc + 1,
                        qualified_count = (if truthy P q then qualified_count acc + 1
                                           else qualified_count acc),
                        confidence_sum = csum,
                        message_sum = msum,
                        intent_counts = count_incr P intent (intent_counts acc)\<rparr>)))"

fun stats_loop :: "'f platform \<Rightarrow> 'f pydict list \<Rightarrow> 'f stats_acc \<Rightarrow> py_error + 'f stats_acc" where
  "stats_loop P [] acc = Inr acc"
| "stats_loop P (doc # docs) acc =
     (let lead = flatten_lead P doc
      in case dict_item lead ''hasOutput'' of
           Inl e \<Rightarrow> Inl e
         | Inr h \<Rightarrow>
             if \<not> truthy P h then stats_loop P docs acc
             else (case stats_step P lead acc of
                     Inl e \<Rightarrow> Inl e
                   | Inr acc' \<Rightarrow> stats_loop P docs acc'))"

record 'f stats_response =
  s_total :: int
  s_qualified :: int
  s_notQualified :: int
  s_qualificationRate :: "'f number"
  s_avgConfidence :: "'f number"
  s_avgMessages :: "'f number"
  s_intentBreakdown :: "('f pyval \<times> int) list"

definition get_stats :: "'f platform \<Rightarrow> 'f pydict list \<Rightarrow> py_error + 'f stats_response" where
  "get_stats P col =
     and_then (stats_loop P (find_limit col QAll 1000)
                 \<lparr>total = 0, qualified_count = 0, confidence_sum = NInt 0, message_sum = NInt 0,
                  intent_counts = []\<rparr>) (\<lambda>acc.
       if total acc = 0 then
         Inr \<lparr>s_total = 0, s_qualified = 0, s_notQualified = 0,
              s_qualificationRate = NInt 0, s_avgConfidence = NInt 0, s_avgMessages = NInt 0,
              s_intentBreakdown = []\<rparr>
       else
         (case round_div P (NInt (qualified_count acc)) (total acc) 3 of
            None \<Rightarrow> Inl OverflowError
          | Some rate \<Rightarrow>
              (case round_div P (confidence_sum acc) (total acc) 3 of
                 None \<Rightarrow> Inl OverflowError
               | Some conf \<Rightarrow>
                   (case round_div P (message_sum acc) (total acc) 1 of
                      None \<Rightarrow> Inl OverflowError
                    | Some msgs \<Rightarrow>
                        Inr \<lparr>s_total = total acc, s_qualified = qualified_count acc,
                             s_notQualified = total acc - qualified_count acc,
                             s_qualificationRate = NFloat rate, s_avgConfidence = NFloat conf,
                             s_avgMessages = NFloat msgs,
                             s_intentBreakdown = intent_counts acc\<rparr>))))"

section \<open>Notions of the specification\<close>

text \<open>
  The definitions of this section follow the words of the specification, not the code:
  the theorems below compare the two.
\<close>

text \<open>A lead is analysed when its \<^verbatim>\<open>output\<close> is a non-empty mapping, pending otherwise.\<close>

definition analysed :: "'f pydict \<Rightarrow> bool" where
  "analysed doc = (case map_of doc ''output'' of Some (VDict kvs) \<Rightarrow> kvs \<noteq> [] | _ \<Rightarrow> False)"

text \<open>
  The stored value of a field after sanitisation, the default where the field is absent;
  for a field whose default also replaces a falsy value, the default in that case too. The
  fields of the analysis are those of the stored \<^verbatim>\<open>output\<close> mapping.
\<close>

definition stored :: "'f pydict \<Rightarrow> string \<Rightarrow> 'f pyval \<Rightarrow> 'f pyval" where
  "stored doc k dflt = (case map_of doc k of Some v \<Rightarrow> serialize v | None \<Rightarrow> dflt)"

definition stored_or :: "'f platform \<Rightarrow> 'f pydict \<Rightarrow> string \<Rightarrow> 'f pyval \<Rightarrow> 'f pyval" where
  "stored_or P doc k dflt = (if truthy P (stored doc k dflt) then stored doc k dflt else dflt)"

definition output_of :: "'f pydict \<Rightarrow> 'f pydict" where
  "output_of doc = (case map_of doc ''output'' of Some (VDict kvs) \<Rightarrow> kvs | _ \<Rightarrow> [])"

text \<open>The ten fields of the Lead contract, and their types in the data model.\<close>

definition lead_fields :: "string list" where
  "lead_fields =
     [''sessionId'', ''messageLength'', ''analysedAt'', ''leadAnalysed'', ''hasOutput'',
      ''qualified'', ''intent'', ''confidence'', ''signals'', ''summary'']"

fun is_dict :: "'f pyval \<Rightarrow> bool" where
  "is_dict (VDict kvs) = True"
| "is_dict v = False"

fun is_str :: "'f pyval \<Rightarrow> bool" where
  "is_str (VStr s) = True"
| "is_str v = False"

fun is_bool :: "'f pyval \<Rightarrow> bool" where
  "is_bool (VBool b) = True"
| "is_bool v = False"

fun is_nat_int :: "'f pyval \<Rightarrow> bool" where
  "is_nat_int (VInt n) = (0 \<le> n)"
| "is_nat_int v = False"

fun is_number :: "'f pyval \<Rightarrow> bool" where
  "is_number (VInt n) = True"
| "is_number (VFloat x) = True"
| "is_number v = False"

fun is_str_list :: "'f pyval \<Rightarrow> bool" where
  "is_str_list (VList xs) = list_all is_str xs"
| "is_str_list v = False"

text \<open>A timestamp leaves \<^verbatim>\<open>serialize\<close> as its ISO-8601 text.\<close>

fun is_timestamp_or_null :: "'f pyval \<Rightarrow> bool" where
  "is_timestamp_or_null VNull = True"
| "is_timestamp_or_null (VStr s) = True"
| "is_timestamp_or_null v = False"

definition field_is :: "('f pyval \<Rightarrow> bool) \<Rightarrow> 'f pydict \<Rightarrow> string \<Rightarrow> bool" where
  "field_is T d k = (case map_of d k of Some v \<Rightarrow> T v | None \<Rightarrow> False)"

definition lead_typed :: "'f pydict \<Rightarrow> bool" where
  "lead_typed lead \<longleftrightarrow>
     map fst lead = lead_fields \<and>
     field_is is_str lead ''sessionId'' \<and>
     field_is is_nat_int lead ''messageLength'' \<and>
     field_is is_timestamp_or_null lead ''analysedAt'' \<and>
     field_is is_bool lead ''leadAnalysed'' \<and>
     field_is is_bool lead ''hasOutput'' \<and>
     field_is is_bool lead ''qualified'' \<and>
     field_is is_str lead ''intent'' \<and>
     field_is is_number lead ''confidence'' \<and>
     field_is is_str_list lead ''signals'' \<and>
     field_is is_str_list lead ''summary''"

text \<open>
  A stored document whose fields, where present, have the types the data model gives them:
  a field may be absent, and the fields with a default for a falsy value may be null.
\<close>

definition absent_or :: "('f pyval \<Rightarrow> bool) \<Rightarrow> 'f pydict \<Rightarrow> string \<Rightarrow> bool" where
  "absent_or T d k = (case map_of d k of Some v \<Rightarrow> T v | None \<Rightarrow> True)"

fun is_stored_timestamp :: "'f pyval \<Rightarrow> bool" where
  "is_stored_timestamp VNull = True"
| "is_stored_timestamp (VDatetime s) = True"
| "is_stored_timestamp (VStr s) = True"
| "is_stored_timestamp v = False"

definition null_or :: "('f pyval \<Rightarrow> bool) \<Rightarrow> 'f pyval \<Rightarrow> bool" where
  "null_or T v = (v = VNull \<or> T v)"

definition output_typed :: "'f pydict \<Rightarrow> bool" where
  "output_typed out \<longleftrightarrow>
     absent_or is_bool out ''qualified'' \<and>
     absent_or is_str out ''intent'' \<and>
     absent_or (null_or is_number) out ''confidence'' \<and>
     absent_or (null_or is_str_list) out ''signals'' \<and>
     absent_or (null_or is_str_list) out ''summary''"

definition raw_typed :: "'f pydict \<Rightarrow> bool" where
  "raw_typed doc \<longleftrightarrow>
     absent_or (null_or is_nat_int) doc ''messageLength'' \<and>
     absent_or is_stored_timestamp doc ''analysedAt'' \<and>
     absent_or is_bool doc ''leadAnalysed'' \<and>
     (case map_of doc ''output'' of Some (VDict out) \<Rightarrow> output_typed out | _ \<Rightarrow> True)"

text \<open>
  Chat extraction, one entry at a time: an entry that is not a mapping is skipped; the
  content is the \<^verbatim>\<open>content\<close> of a mapping \<^verbatim>\<open>data\<close>, a string \<^verbatim>\<open>data\<close> itself,
  and empty otherwise; an entry with empty content is skipped; the others are emitted with
  their \<^verbatim>\<open>type\<close>, \<^verbatim>\<open>"unknown"\<close> by default, and the content as a string.
\<close>

definition entry_content :: "'f pydict \<Rightarrow> 'f pyval" where
  "entry_content m =
     (case map_of m ''data'' of
        Some (VDict dkvs) \<Rightarrow> (case map_of dkvs ''content'' of Some c \<Rightarrow> c | None \<Rightarrow> VStr '''')
      | Some (VStr s) \<Rightarrow> VStr s
      | _ \<Rightarrow> VStr '''')"

definition chat_entry :: "'f platform \<Rightarrow> 'f pyval \<Rightarrow> 'f pyval option" where
  "chat_entry P e =
     (case e of
        VDict m \<Rightarrow>
          if truthy P (entry_content m)
          then Some (VDict [(''type'', case map_of m ''type'' of Some t \<Rightarrow> t | None \<Rightarrow> VStr ''unknown''),
                            (''content'', VStr (py_str P (entry_content m)))])
          else None
      | _ \<Rightarrow> None)"

text \<open>The transcript of a document: its entries in their order, each through \<open>chat_entry\<close>.\<close>

definition chat_spec :: "'f platform \<Rightarrow> 'f pydict \<Rightarrow> 'f pyval list" where
  "chat_spec P doc =
     (case map_of doc ''messages'' of
        Some (VList ms) \<Rightarrow> List.map_filter (chat_entry P) (map serialize ms)
      | _ \<Rightarrow> [])"

text \<open>
  The four strategies of the resolver, on the trimmed input \<open>sid\<close> and its digit string
  \<open>ds\<close>. Exact string match: a document whose \<^verbatim>\<open>sessionId\<close> equals the trimmed input
  as a string. Numeric match: if there are digits and they parse as an integer of the
  store's width, a document whose \<^verbatim>\<open>sessionId\<close> equals that integer. Substring match:
  if there are digits, a document whose string \<^verbatim>\<open>sessionId\<close> contains them. Bounded
  fallback scan: the first of up to 200 documents whose stringified \<^verbatim>\<open>sessionId\<close>
  equals the trimmed input or contains the digits.
\<close>

definition exact_match :: "'f pydict list \<Rightarrow> string \<Rightarrow> 'f pydict option" where
  "exact_match col sid = find_one col (QSessionStr sid)"

definition numeric_match :: "'f platform \<Rightarrow> 'f pydict list \<Rightarrow> string \<Rightarrow> 'f pydict option" where
  "numeric_match P col ds =
     (if ds = [] then None
      else case py_int P ds of
             Inl e \<Rightarrow> None
           | Inr n \<Rightarrow> if n \<le> 9223372036854775807 then find_one col (QSessionInt n) else None)"

definition substring_match :: "'f pydict list \<Rightarrow> string \<Rightarrow> 'f pydict option" where
  "substring_match col ds = (if ds = [] then None else find_one col (QSessionRegex ds))"

definition session_text :: "'f platform \<Rightarrow> 'f pydict \<Rightarrow> string" where
  "session_text P d = py_str P (case map_of d ''sessionId'' of Some v \<Rightarrow> v | None \<Rightarrow> VStr '''')"

definition fallback_scan :: "'f platform \<Rightarrow> 'f pydict list \<Rightarrow> string \<Rightarrow> string \<Rightarrow> 'f pydict option" where
  "fallback_scan P col sid ds =
     List.find (\<lambda>d. session_text P d = sid \<or> contains ds (session_text P d)) (take 200 col)"

text \<open>
  The post-filter of the list operation on a flattened lead: it has output, its intent is
  the upper-cased query parameter when one is given, and its \<^verbatim>\<open>qualified\<close> equals the
  query parameter when one is given.
\<close>

definition passes :: "'f platform \<Rightarrow> string option \<Rightarrow> bool option \<Rightarrow> 'f pydict \<Rightarrow> bool" where
  "passes P intent qualified lead \<longleftrightarrow>
     map_of lead ''hasOutput'' = Some (VBool True) \<and>
     (case intent of
        None \<Rightarrow> True
      | Some q \<Rightarrow>
          q = [] \<or> (case upper q of Some u \<Rightarrow> map_of lead ''intent'' = Some (VStr u) | None \<Rightarrow> False)) \<and>
     (case qualified of
        None \<Rightarrow> True
      | Some b \<Rightarrow> (case map_of lead ''qualified'' of Some v \<Rightarrow> eq_bool P v b | None \<Rightarrow> False))"

text \<open>The window of documents the list operation fetches before it filters.\<close>

definition list_window :: "'f platform \<Rightarrow> 'f pydict list \<Rightarrow> string option \<Rightarrow> string \<Rightarrow> 'f pydict list" where
  "list_window P col search sort_order =
     find_sort_limit P col (mongo_query search) ''analysedAt''
       (if sort_order = ''desc'' then - 1 else 1) 500"

text \<open>The fetched-and-filtered lead sequence: the leads of the window that pass the post-filter.\<close>

definition kept_leads ::
  "'f platform \<Rightarrow> 'f pydict list \<Rightarrow> string option \<Rightarrow> string option \<Rightarrow> bool option \<Rightarrow> string \<Rightarrow> 'f pydict list" where
  "kept_leads P col search intent qualified sort_order =
     filter (passes P intent qualified) (map (flatten_lead P) (list_window P col search sort_order))"

definition zero_stats :: "'f stats_response" where
  "zero_stats =
     \<lparr>s_total = 0, s_qualified = 0, s_notQualified = 0,
      s_qualificationRate = NInt 0, s_avgConfidence = NInt 0, s_avgMessages = NInt 0,
      s_intentBreakdown = []\<rparr>"

section \<open>A platform and documents to run the model on\<close>

text \<open>
  One instance of the platform: floats are exact rationals, the store orders timestamps by
  their text and puts null first.
\<close>

fun str_le :: "string \<Rightarrow> string \<Rightarrow> bool" where
  "str_le [] t = True"
| "str_le (c # cs) [] = False"
| "str_le (c # cs) (d # ds) = ((of_char c :: nat) < of_char d \<or> (c = d \<and> str_le cs ds))"

fun rat_of_number :: "rat number \<Rightarrow> rat" where
  "rat_of_number (NInt n) = of_int n"
| "rat_of_number (NFloat x) = x"

definition rat_platform :: "rat platform" where
  "rat_platform =
     \<lparr>float_eq_int = (\<lambda>x n. x = of_int n),
      float_eq = (\<lambda>x y. x = y),
      float_add = (\<lambda>x y. x + y),
      float_of_int = (\<lambda>n. Some (of_int n)),
      round_div = (\<lambda>x n k. Some (of_int (round (rat_of_number x / of_int n * 10 ^ k)) / 10 ^ k)),
      str_other = (\<lambda>v. case v of VFloat x \<Rightarrow> ''<float>'' | VList xs \<Rightarrow> ''[...]'' | _ \<Rightarrow> ''{...}''),
      bson_le = (\<lambda>a b. case (a, b) of
                   (VDatetime s, VDatetime t) \<Rightarrow> str_le s t
                 | (VNull, _) \<Rightarrow> True
                 | (_, VNull) \<Rightarrow> False
                 | _ \<Rightarrow> True),
      int_max_str_digits = Some 4300\<rparr>"

text \<open>An analysed lead with a chat, a pending lead, and an analysed lead with a lower-case intent.\<close>

definition doc_analysed :: "rat pydict" where
  "doc_analysed =
     [(''_id'', VObjectId ''65a1f0c2e4b0a1b2c3d4e5f6''), (''sessionId'', VInt 5551234),
      (''messageLength'', VInt 7),
      (''analysedAt'', VDatetime ''2024-05-01T10:00:00''), (''leadAnalysed'', VBool True),
      (''output'', VDict [(''qualified'', VBool True), (''intent'', VStr ''PURCHASE''),
                          (''confidence'', VFloat (9 / 10)),
                          (''signals'', VList [VStr ''asked price'']),
                          (''summary'', VList [VStr ''wants to buy''])]),
      (''messages'', VList [VDict [(''type'', VStr ''human''), (''data'', VDict [(''content'', VStr ''hi'')])],
                            VDict [(''type'', VStr ''ai''), (''data'', VStr '''')],
                            VDict [(''type'', VStr ''ai''), (''data'', VDict [])],
                            VStr ''junk'',
                            VDict [(''data'', VStr ''price?'')]])]"

definition doc_pending :: "rat pydict" where
  "doc_pending =
     [(''sessionId'', VStr ''42''), (''messageLength'', VInt 3), (''output'', VDict []),
      (''confidence'', VInt 1), (''intent'', VStr ''PURCHASE'')]"

definition doc_lower :: "rat pydict" where
  "doc_lower =
     [(''sessionId'', VStr ''xyz''), (''output'', VDict [(''intent'', VStr ''purchase'')])]"

text \<open>A lead whose identifier is stored as the integer 4299.\<close>

definition doc_4299 :: "rat pydict" where
  "doc_4299 = [(''sessionId'', VInt 4299), (''output'', VDict [(''intent'', VStr ''BROWSE'')])]"

section \<open>Flattening\<close>

lemma map_of_serialize_doc: "map_of (serialize_doc d) k = map_option serialize (map_of d k)"
  by (induction d) (auto simp: serialize_doc_def)

lemma map_of_dict_pop: "map_of (dict_pop k' d) k = (if k = k' then None else map_of d k)"
  by (induction d) (auto simp: dict_pop_def)

lemma nonempty_dict_serialize: "nonempty_dict (serialize v) = nonempty_dict v"
  by (cases v) auto

lemma flatten_lead_unfold:
  "flatten_lead P doc0 =
     (let doc = dict_pop ''_id'' (serialize_doc doc0);
          output = dict_get doc ''output'' VNull;
          has_output = nonempty_dict output
      in [(''sessionId'', VStr (py_str P (dict_get doc ''sessionId'' (VStr '''')))),
          (''messageLength'', py_or P (dict_get doc ''messageLength'' (VInt 0)) (VInt 0)),
          (''analysedAt'', dict_get doc ''analysedAt'' VNull),
          (''leadAnalysed'', dict_get doc ''leadAnalysed'' (VBool False)),
          (''hasOutput'', VBool has_output),
          (''qualified'', if has_output then dict_get (as_dict output) ''qualified'' (VBool False) else VBool False),
          (''intent'', if has_output then dict_get (as_dict output) ''intent'' (VStr ''UNKNOWN'') else VStr ''PENDING''),
          (''confidence'', if has_output then py_or P (dict_get (as_dict output) ''confidence'' (VInt 0)) (VInt 0) else VInt 0),
          (''signals'', if has_output then py_or P (dict_get (as_dict output) ''signals'' (VList [])) (VList []) else VList []),
          (''summary'', if has_output then py_or P (dict_get (as_dict output) ''summary'' (VList [])) (VList []) else VList [])])"
  by (simp add: flatten_lead_def Let_def dict_update_def)

lemma flatten_lead_keys: "map fst (flatten_lead P d) = lead_fields"
  by (simp add: flatten_lead_unfold Let_def lead_fields_def)

text \<open>The document after sanitising and dropping the primary key, as the body reads it.\<close>

lemma doc_get:
  "k \<noteq> ''_id'' \<Longrightarrow> dict_get (dict_pop ''_id'' (serialize_doc d)) k dflt =
     (case map_of d k of Some v \<Rightarrow> serialize v | None \<Rightarrow> dflt)"
  by (simp add: dict_get_def map_of_dict_pop map_of_serialize_doc split: option.splits)

lemma has_output_analysed:
  "nonempty_dict (dict_get (dict_pop ''_id'' (serialize_doc d)) ''output'' VNull) = analysed d"
  by (simp add: doc_get analysed_def nonempty_dict_serialize split: option.splits pyval.splits)

lemma flatten_lead_hasOutput: "map_of (flatten_lead P d) ''hasOutput'' = Some (VBool (analysed d))"
  by (simp add: flatten_lead_unfold Let_def has_output_analysed)

lemma flatten_lead_pending_fields:
  assumes "\<not> analysed d"
  shows "map_of (flatten_lead P d) ''qualified'' = Some (VBool False)"
    and "map_of (flatten_lead P d) ''intent'' = Some (VStr ''PENDING'')"
    and "map_of (flatten_lead P d) ''confidence'' = Some (VInt 0)"
    and "map_of (flatten_lead P d) ''signals'' = Some (VList [])"
    and "map_of (flatten_lead P d) ''summary'' = Some (VList [])"
  using assms by (simp_all add: flatten_lead_unfold Let_def has_output_analysed)

text \<open>
  C2. A document whose \<^verbatim>\<open>output\<close> is absent, is not a mapping, or is the empty mapping
  flattens to a pending lead: \<^verbatim>\<open>hasOutput\<close> is false, \<^verbatim>\<open>intent\<close> is
  \<^verbatim>\<open>"PENDING"\<close>, \<^verbatim>\<open>qualified\<close> is false, \<^verbatim>\<open>confidence\<close> is 0, and
  \<^verbatim>\<open>signals\<close> and \<^verbatim>\<open>summary\<close> are empty, whatever the other fields hold.
\<close>

theorem flatten_lead_pending:
  assumes "map_of doc ''output'' = None \<or>
           (\<exists>v. map_of doc ''output'' = Some v \<and> \<not> is_dict v) \<or>
           map_of doc ''output'' = Some (VDict [])"
  shows "dict_item (flatten_lead P doc) ''hasOutput'' = Inr (VBool False) \<and>
         dict_item (flatten_lead P doc) ''intent'' = Inr (VStr ''PENDING'') \<and>
         dict_item (flatten_lead P doc) ''qualified'' = Inr (VBool False) \<and>
         dict_item (flatten_lead P doc) ''confidence'' = Inr (VInt 0) \<and>
         dict_item (flatten_lead P doc) ''signals'' = Inr (VList []) \<and>
         dict_item (flatten_lead P doc) ''summary'' = Inr (VList [])"
proof -
  have "\<not> analysed doc"
    using assms by (auto simp: analysed_def split: option.splits pyval.splits)
  then show ?thesis
    by (simp add: dict_item_def flatten_lead_hasOutput flatten_lead_pending_fields)
qed

theorem flatten_lead_pending_witness:
  "map_of doc_pending ''output'' = Some (VDict []) \<and>
   dict_item (flatten_lead rat_platform doc_pending) ''hasOutput'' = Inr (VBool False) \<and>
   dict_item (flatten_lead rat_platform doc_pending) ''intent'' = Inr (VStr ''PENDING'') \<and>
   dict_item (flatten_lead rat_platform doc_pending) ''qualified'' = Inr (VBool False) \<and>
   dict_item (flatten_lead rat_platform doc_pending) ''confidence'' = Inr (VInt 0) \<and>
   dict_item (flatten_lead rat_platform doc_pending) ''signals'' = Inr (VList []) \<and>
   dict_item (flatten_lead rat_platform doc_pending) ''summary'' = Inr (VList [])"
proof -
  have h: "map_of doc_pending ''output'' = Some (VDict [])"
    by (simp add: doc_pending_def)
  show ?thesis
    using h flatten_lead_pending [of doc_pending rat_platform] by simp
qed

lemma flatten_lead_sessionId:
  "map_of (flatten_lead P d) ''sessionId'' =
     Some (VStr (py_str P (case map_of d ''sessionId'' of Some v \<Rightarrow> serialize v | None \<Rightarrow> VStr '''')))"
  by (simp add: flatten_lead_unfold Let_def doc_get)

lemma flatten_lead_messageLength:
  "map_of (flatten_lead P d) ''messageLength'' =
     Some (py_or P (case map_of d ''messageLength'' of Some v \<Rightarrow> serialize v | None \<Rightarrow> VInt 0) (VInt 0))"
  by (simp add: flatten_lead_unfold Let_def doc_get)

lemma flatten_lead_analysedAt:
  "map_of (flatten_lead P d) ''analysedAt'' =
     Some (case map_of d ''analysedAt'' of Some v \<Rightarrow> serialize v | None \<Rightarrow> VNull)"
  by (simp add: flatten_lead_unfold Let_def doc_get)

lemma flatten_lead_leadAnalysed:
  "map_of (flatten_lead P d) ''leadAnalysed'' =
     Some (case map_of d ''leadAnalysed'' of Some v \<Rightarrow> serialize v | None \<Rightarrow> VBool False)"
  by (simp add: flatten_lead_unfold Let_def doc_get)

lemma analysed_output:
  assumes "analysed d"
  obtains out where "map_of d ''output'' = Some (VDict out)" and "out \<noteq> []"
  using assms
  by (auto simp: analysed_def split: option.splits pyval.splits)

lemma flatten_lead_analysed_fields:
  assumes "map_of d ''output'' = Some (VDict out)" and "out \<noteq> []"
  shows "map_of (flatten_lead P d) ''qualified'' =
           Some (case map_of out ''qualified'' of Some v \<Rightarrow> serialize v | None \<Rightarrow> VBool False)"
    and "map_of (flatten_lead P d) ''intent'' =
           Some (case map_of out ''intent'' of Some v \<Rightarrow> serialize v | None \<Rightarrow> VStr ''UNKNOWN'')"
    and "map_of (flatten_lead P d) ''confidence'' =
           Some (py_or P (case map_of out ''confidence'' of Some v \<Rightarrow> serialize v | None \<Rightarrow> VInt 0) (VInt 0))"
    and "map_of (flatten_lead P d) ''signals'' =
           Some (py_or P (case map_of out ''signals'' of Some v \<Rightarrow> serialize v | None \<Rightarrow> VList []) (VList []))"
    and "map_of (flatten_lead P d) ''summary'' =
           Some (py_or P (case map_of out ''summary'' of Some v \<Rightarrow> serialize v | None \<Rightarrow> VList []) (VList []))"
proof -
  have "map (map_prod id serialize) out = serialize_doc out"
    by (simp add: serialize_doc_def)
  then have o: "dict_get (dict_pop ''_id'' (serialize_doc d)) ''output'' VNull = VDict (serialize_doc out)"
    using assms by (simp add: doc_get)
  have g: "\<And>k dflt. dict_get (serialize_doc out) k dflt =
             (case map_of out k of Some v \<Rightarrow> serialize v | None \<Rightarrow> dflt)"
    by (simp add: dict_get_def map_of_serialize_doc split: option.splits)
  have n: "serialize_doc out \<noteq> []"
    using assms by (simp add: serialize_doc_def)
  show "map_of (flatten_lead P d) ''qualified'' =
           Some (case map_of out ''qualified'' of Some v \<Rightarrow> serialize v | None \<Rightarrow> VBool False)"
    by (simp add: flatten_lead_unfold Let_def o g n)
  show "map_of (flatten_lead P d) ''intent'' =
           Some (case map_of out ''intent'' of Some v \<Rightarrow> serialize v | None \<Rightarrow> VStr ''UNKNOWN'')"
    by (simp add: flatten_lead_unfold Let_def o g n)
  show "map_of (flatten_lead P d) ''confidence'' =
           Some (py_or P (case map_of out ''confidence'' of Some v \<Rightarrow> serialize v | None \<Rightarrow> VInt 0) (VInt 0))"
    by (simp add: flatten_lead_unfold Let_def o g n)
  show "map_of (flatten_lead P d) ''signals'' =
           Some (py_or P (case map_of out ''signals'' of Some v \<Rightarrow> serialize v | None \<Rightarrow> VList []) (VList []))"
    by (simp add: flatten_lead_unfold Let_def o g n)
  show "map_of (flatten_lead P d) ''summary'' =
           Some (py_or P (case map_of out ''summary'' of Some v \<Rightarrow> serialize v | None \<Rightarrow> VList []) (VList []))"
    by (simp add: flatten_lead_unfold Let_def o g n)
qed

lemma serialize_str_list: "is_str_list v \<Longrightarrow> serialize v = v"
proof (cases v)
  case (VList xs)
  assume "is_str_list v"
  with VList have "list_all is_str xs" by simp
  then have "map serialize xs = xs"
    by (induction xs) (auto elim: is_str.elims)
  with VList show ?thesis by simp
qed auto

lemma typed_messageLength:
  assumes "absent_or (null_or is_nat_int) d ''messageLength''"
  shows "field_is is_nat_int (flatten_lead P d) ''messageLength''"
  using assms
  by (auto simp: field_is_def absent_or_def null_or_def flatten_lead_messageLength py_or_def
           split: option.splits elim!: is_nat_int.elims)

lemma typed_analysedAt:
  assumes "absent_or is_stored_timestamp d ''analysedAt''"
  shows "field_is is_timestamp_or_null (flatten_lead P d) ''analysedAt''"
  using assms
  by (auto simp: field_is_def absent_or_def flatten_lead_analysedAt
           split: option.splits elim!: is_stored_timestamp.elims)

lemma typed_leadAnalysed:
  assumes "absent_or is_bool d ''leadAnalysed''"
  shows "field_is is_bool (flatten_lead P d) ''leadAnalysed''"
  using assms
  by (auto simp: field_is_def absent_or_def flatten_lead_leadAnalysed
           split: option.splits elim!: is_bool.elims)

lemma typed_pending:
  assumes "\<not> analysed d"
  shows "field_is is_bool (flatten_lead P d) ''qualified''"
    and "field_is is_str (flatten_lead P d) ''intent''"
    and "field_is is_number (flatten_lead P d) ''confidence''"
    and "field_is is_str_list (flatten_lead P d) ''signals''"
    and "field_is is_str_list (flatten_lead P d) ''summary''"
  using assms by (simp_all add: field_is_def flatten_lead_pending_fields)

lemma typed_analysed:
  assumes "map_of d ''output'' = Some (VDict out)" and "out \<noteq> []" and "output_typed out"
  shows "field_is is_bool (flatten_lead P d) ''qualified''"
    and "field_is is_str (flatten_lead P d) ''intent''"
    and "field_is is_number (flatten_lead P d) ''confidence''"
    and "field_is is_str_list (flatten_lead P d) ''signals''"
    and "field_is is_str_list (flatten_lead P d) ''summary''"
proof -
  note f = flatten_lead_analysed_fields [OF assms(1,2)]
  from assms(3) show "field_is is_bool (flatten_lead P d) ''qualified''"
    by (auto simp: field_is_def f output_typed_def absent_or_def split: option.splits elim!: is_bool.elims)
  from assms(3) show "field_is is_str (flatten_lead P d) ''intent''"
    by (auto simp: field_is_def f output_typed_def absent_or_def split: option.splits elim!: is_str.elims)
  from assms(3) show "field_is is_number (flatten_lead P d) ''confidence''"
    by (auto simp: field_is_def f output_typed_def absent_or_def null_or_def py_or_def
             split: option.splits elim!: is_number.elims)
  from assms(3) show "field_is is_str_list (flatten_lead P d) ''signals''"
    by (auto simp: field_is_def f output_typed_def absent_or_def null_or_def py_or_def serialize_str_list
             split: option.splits)
  from assms(3) show "field_is is_str_list (flatten_lead P d) ''summary''"
    by (auto simp: field_is_def f output_typed_def absent_or_def null_or_def py_or_def serialize_str_list
             split: option.splits)
qed

lemma raw_typed_lead_typed:
  assumes "raw_typed d"
  shows "lead_typed (flatten_lead P d)"
proof -
  have base: "map fst (flatten_lead P d) = lead_fields"
    "field_is is_str (flatten_lead P d) ''sessionId''"
    "field_is is_nat_int (flatten_lead P d) ''messageLength''"
    "field_is is_timestamp_or_null (flatten_lead P d) ''analysedAt''"
    "field_is is_bool (flatten_lead P d) ''leadAnalysed''"
    "field_is is_bool (flatten_lead P d) ''hasOutput''"
    using assms typed_messageLength [of d P] typed_analysedAt [of d P] typed_leadAnalysed [of d P]
    by (simp_all add: flatten_lead_keys raw_typed_def field_is_def flatten_lead_sessionId
          flatten_lead_hasOutput)
  have rest: "field_is is_bool (flatten_lead P d) ''qualified'' \<and>
    field_is is_str (flatten_lead P d) ''intent'' \<and>
    field_is is_number (flatten_lead P d) ''confidence'' \<and>
    field_is is_str_list (flatten_lead P d) ''signals'' \<and>
    field_is is_str_list (flatten_lead P d) ''summary''"
  proof (cases "analysed d")
    case True
    then obtain out where o: "map_of d ''output'' = Some (VDict out)" "out \<noteq> []"
      by (rule analysed_output)
    with assms have "output_typed out" by (simp add: raw_typed_def)
    with o show ?thesis by (simp add: typed_analysed)
  next
    case False
    then show ?thesis by (simp add: typed_pending)
  qed
  from base rest show ?thesis by (simp add: lead_typed_def)
qed

text \<open>
  C1, as the code has it. \<^verbatim>\<open>flatten_lead\<close> returns for every document, the empty one
  included, a mapping with exactly the ten contract fields, in which \<^verbatim>\<open>sessionId\<close> is a
  string and \<^verbatim>\<open>hasOutput\<close> a boolean. \<^verbatim>\<open>sessionId\<close> is the text of the stored
  value, \<^verbatim>\<open>hasOutput\<close> tells whether the document is analysed, and each other field
  carries the stored value after sanitisation where it is present and its default
  otherwise, \<^verbatim>\<open>messageLength\<close>, \<^verbatim>\<open>confidence\<close>, \<^verbatim>\<open>signals\<close> and
  \<^verbatim>\<open>summary\<close> their default also where the stored value is falsy; the fields of the
  analysis are read from the stored \<^verbatim>\<open>output\<close> of an analysed document and are the
  pending defaults otherwise. The fields have the types of the data model,
  \<^verbatim>\<open>messageLength\<close> a non-negative integer among them, when the stored fields have
  theirs.
\<close>

theorem flatten_lead_total:
  "map fst (flatten_lead P doc) = lead_fields \<and>
   field_is is_str (flatten_lead P doc) ''sessionId'' \<and>
   field_is is_bool (flatten_lead P doc) ''hasOutput'' \<and>
   dict_item (flatten_lead P doc) ''sessionId'' =
     Inr (VStr (py_str P (stored doc ''sessionId'' (VStr '''')))) \<and>
   dict_item (flatten_lead P doc) ''messageLength'' = Inr (stored_or P doc ''messageLength'' (VInt 0)) \<and>
   dict_item (flatten_lead P doc) ''analysedAt'' = Inr (stored doc ''analysedAt'' VNull) \<and>
   dict_item (flatten_lead P doc) ''leadAnalysed'' = Inr (stored doc ''leadAnalysed'' (VBool False)) \<and>
   dict_item (flatten_lead P doc) ''hasOutput'' = Inr (VBool (analysed doc)) \<and>
   (analysed doc \<longrightarrow>
      dict_item (flatten_lead P doc) ''qualified'' =
        Inr (stored (output_of doc) ''qualified'' (VBool False)) \<and>
      dict_item (flatten_lead P doc) ''intent'' =
        Inr (stored (output_of doc) ''intent'' (VStr ''UNKNOWN'')) \<and>
      dict_item (flatten_lead P doc) ''confidence'' =
        Inr (stored_or P (output_of doc) ''confidence'' (VInt 0)) \<and>
      dict_item (flatten_lead P doc) ''signals'' =
        Inr (stored_or P (output_of doc) ''signals'' (VList [])) \<and>
      dict_item (flatten_lead P doc) ''summary'' =
        Inr (stored_or P (output_of doc) ''summary'' (VList []))) \<and>
   (\<not> analysed doc \<longrightarrow>
      dict_item (flatten_lead P doc) ''qualified'' = Inr (VBool False) \<and>
      dict_item (flatten_lead P doc) ''intent'' = Inr (VStr ''PENDING'') \<and>
      dict_item (flatten_lead P doc) ''confidence'' = Inr (VInt 0) \<and>
      dict_item (flatten_lead P doc) ''signals'' = Inr (VList []) \<and>
      dict_item (flatten_lead P doc) ''summary'' = Inr (VList [])) \<and>
   (raw_typed doc \<longrightarrow> lead_typed (flatten_lead P doc))"
proof -
  have base: "map fst (flatten_lead P doc) = lead_fields \<and>
      field_is is_str (flatten_lead P doc) ''sessionId'' \<and>
      field_is is_bool (flatten_lead P doc) ''hasOutput'' \<and>
      dict_item (flatten_lead P doc) ''sessionId'' =
        Inr (VStr (py_str P (stored doc ''sessionId'' (VStr '''')))) \<and>
      dict_item (flatten_lead P doc) ''messageLength'' = Inr (stored_or P doc ''messageLength'' (VInt 0)) \<and>
      dict_item (flatten_lead P doc) ''analysedAt'' = Inr (stored doc ''analysedAt'' VNull) \<and>
      dict_item (flatten_lead P doc) ''leadAnalysed'' = Inr (stored doc ''leadAnalysed'' (VBool False)) \<and>
      dict_item (flatten_lead P doc) ''hasOutput'' = Inr (VBool (analysed doc))"
    by (simp add: flatten_lead_keys field_is_def dict_item_def stored_def stored_or_def py_or_def
          flatten_lead_sessionId flatten_lead_messageLength flatten_lead_analysedAt
          flatten_lead_leadAnalysed flatten_lead_hasOutput)
  have an: "dict_item (flatten_lead P doc) ''qualified'' =
        Inr (stored (output_of doc) ''qualified'' (VBool False)) \<and>
      dict_item (flatten_lead P doc) ''intent'' =
        Inr (stored (output_of doc) ''intent'' (VStr ''UNKNOWN'')) \<and>
      dict_item (flatten_lead P doc) ''confidence'' =
        Inr (stored_or P (output_of doc) ''confidence'' (VInt 0)) \<and>
      dict_item (flatten_lead P doc) ''signals'' =
        Inr (stored_or P (output_of doc) ''signals'' (VList [])) \<and>
      dict_item (flatten_lead P doc) ''summary'' =
        Inr (stored_or P (output_of doc) ''summary'' (VList []))"
    if "analysed doc"
  proof -
    from that obtain out where o: "map_of doc ''output'' = Some (VDict out)" "out \<noteq> []"
      by (rule analysed_output)
    have oo: "output_of doc = out"
      using o by (simp add: output_of_def)
    show ?thesis
      by (simp add: dict_item_def flatten_lead_analysed_fields [OF o] oo stored_def stored_or_def
            py_or_def)
  qed
  have pe: "dict_item (flatten_lead P doc) ''qualified'' = Inr (VBool False) \<and>
      dict_item (flatten_lead P doc) ''intent'' = Inr (VStr ''PENDING'') \<and>
      dict_item (flatten_lead P doc) ''confidence'' = Inr (VInt 0) \<and>
      dict_item (flatten_lead P doc) ''signals'' = Inr (VList []) \<and>
      dict_item (flatten_lead P doc) ''summary'' = Inr (VList [])"
    if "\<not> analysed doc"
    using that by (simp add: dict_item_def flatten_lead_pending_fields)
  from base an pe raw_typed_lead_typed [of doc P] show ?thesis
    by blast
qed

lemma sample_stored:
  "stored doc_analysed ''sessionId'' (VStr '''') = VInt 5551234"
  "stored_or rat_platform doc_analysed ''messageLength'' (VInt 0) = VInt 7"
  "stored doc_analysed ''analysedAt'' VNull = VStr ''2024-05-01T10:00:00''"
  "stored doc_analysed ''leadAnalysed'' (VBool False) = VBool True"
  "stored (output_of doc_analysed) ''qualified'' (VBool False) = VBool True"
  "stored (output_of doc_analysed) ''intent'' (VStr ''UNKNOWN'') = VStr ''PURCHASE''"
  "stored_or rat_platform (output_of doc_analysed) ''confidence'' (VInt 0) = VFloat (9 / 10)"
  "stored_or rat_platform (output_of doc_analysed) ''signals'' (VList []) = VList [VStr ''asked price'']"
  "stored_or rat_platform (output_of doc_analysed) ''summary'' (VList []) = VList [VStr ''wants to buy'']"
  by (simp_all add: stored_def stored_or_def output_of_def doc_analysed_def rat_platform_def)

lemma sample_stored_falsy:
  "stored [(''messageLength'', VNull), (''output'', VDict [(''confidence'', VInt 0)])] ''sessionId'' (VStr '''') =
     (VStr '''' :: rat pyval)"
  "stored_or rat_platform [(''messageLength'', VNull), (''output'', VDict [(''confidence'', VInt 0)])]
     ''messageLength'' (VInt 0) = VInt 0"
  "stored_or rat_platform
     (output_of [(''messageLength'', VNull), (''output'', VDict [(''confidence'', VInt 0)])])
     ''confidence'' (VInt 0) = VInt 0"
  "stored (output_of [(''messageLength'', VNull), (''output'', VDict [(''confidence'', VInt 0 :: rat pyval)])])
     ''intent'' (VStr ''UNKNOWN'') = VStr ''UNKNOWN''"
  by (simp_all add: stored_def stored_or_def output_of_def)

lemma sample_stored_empty:
  "stored ([] :: rat pydict) k dflt = dflt" "stored_or rat_platform [] k dflt = dflt"
  by (simp_all add: stored_def stored_or_def)

theorem flatten_lead_total_witness:
  "analysed doc_analysed \<and> raw_typed doc_analysed \<and>
   lead_typed (flatten_lead rat_platform doc_analysed) \<and>
   dict_item (flatten_lead rat_platform doc_analysed) ''messageLength'' = Inr (VInt 7) \<and>
   dict_item (flatten_lead rat_platform doc_analysed) ''analysedAt'' = Inr (VStr ''2024-05-01T10:00:00'') \<and>
   dict_item (flatten_lead rat_platform doc_analysed) ''leadAnalysed'' = Inr (VBool True) \<and>
   dict_item (flatten_lead rat_platform doc_analysed) ''qualified'' = Inr (VBool True) \<and>
   dict_item (flatten_lead rat_platform doc_analysed) ''intent'' = Inr (VStr ''PURCHASE'') \<and>
   dict_item (flatten_lead rat_platform doc_analysed) ''confidence'' = Inr (VFloat (9 / 10)) \<and>
   dict_item (flatten_lead rat_platform doc_analysed) ''signals'' = Inr (VList [VStr ''asked price'']) \<and>
   dict_item (flatten_lead rat_platform doc_analysed) ''summary'' = Inr (VList [VStr ''wants to buy'']) \<and>
   \<not> analysed ([] :: rat pydict) \<and> raw_typed ([] :: rat pydict) \<and>
   lead_typed (flatten_lead rat_platform []) \<and>
   dict_item (flatten_lead rat_platform []) ''sessionId'' = Inr (VStr '''') \<and>
   dict_item (flatten_lead rat_platform []) ''intent'' = Inr (VStr ''PENDING'') \<and>
   analysed [(''messageLength'', VNull), (''output'', VDict [(''confidence'', VInt 0 :: rat pyval)])] \<and>
   dict_item (flatten_lead rat_platform
       [(''messageLength'', VNull), (''output'', VDict [(''confidence'', VInt 0)])]) ''messageLength'' =
     Inr (VInt 0) \<and>
   dict_item (flatten_lead rat_platform
       [(''messageLength'', VNull), (''output'', VDict [(''confidence'', VInt 0)])]) ''confidence'' =
     Inr (VInt 0) \<and>
   dict_item (flatten_lead rat_platform
       [(''messageLength'', VNull), (''output'', VDict [(''confidence'', VInt 0)])]) ''intent'' =
     Inr (VStr ''UNKNOWN'')"
proof -
  have h1: "raw_typed doc_analysed"
    by (simp add: raw_typed_def doc_analysed_def absent_or_def null_or_def output_typed_def)
  have h2: "raw_typed ([] :: rat pydict)"
    by (simp add: raw_typed_def absent_or_def)
  have h3: "analysed doc_analysed"
    by (simp add: analysed_def doc_analysed_def)
  have h4: "\<not> analysed ([] :: rat pydict)"
    by (simp add: analysed_def)
  have h5: "analysed [(''messageLength'', VNull), (''output'', VDict [(''confidence'', VInt 0 :: rat pyval)])]"
    by (simp add: analysed_def)
  show ?thesis
    using h1 h2 h3 h4 h5
      flatten_lead_total [of rat_platform doc_analysed]
      flatten_lead_total [of rat_platform "[]"]
      flatten_lead_total [of rat_platform
        "[(''messageLength'', VNull), (''output'', VDict [(''confidence'', VInt 0)])]"]
    by (simp add: sample_stored sample_stored_falsy sample_stored_empty)
qed

text \<open>
  C1 as stated fails: a stored \<^verbatim>\<open>messageLength\<close> of -5 is truthy and passes through
  unchanged, so the flattened lead's \<^verbatim>\<open>messageLength\<close> is not an integer at least 0.
\<close>

theorem flatten_lead_negative_length:
  "dict_item (flatten_lead rat_platform [(''messageLength'', VInt (- 5))]) ''messageLength'' = Inr (VInt (- 5)) \<and>
   \<not> lead_typed (flatten_lead rat_platform [(''messageLength'', VInt (- 5))])"
  by (simp add: dict_item_def lead_typed_def field_is_def flatten_lead_messageLength py_or_def)

section \<open>Resolution\<close>


lemma found_find_one_str:
  "found (find_one col (QSessionStr s)) \<longleftrightarrow> (\<exists>d \<in> set col. map_of d ''sessionId'' = Some (VStr s))"
  by (induction col) (auto simp: find_one_def)

lemma find_one_Some:
  "find_one col q = Some d \<Longrightarrow> d \<in> set col \<and> matches q d"
  by (auto simp: find_one_def find_Some_iff)

lemma find_one_None:
  "find_one col q = None \<longleftrightarrow> (\<forall>d \<in> set col. \<not> matches q d)"
  by (auto simp: find_one_def find_None_iff)

lemma found_find_one_int:
  "found (find_one col (QSessionInt n)) \<longleftrightarrow> (\<exists>d \<in> set col. map_of d ''sessionId'' = Some (VInt n))"
  by (induction col) (auto simp: find_one_def)

lemma matches_nonempty: "q \<noteq> QAll \<Longrightarrow> matches q d \<Longrightarrow> d \<noteq> []"
  by (cases q) auto

lemma found_find_one: "q \<noteq> QAll \<Longrightarrow> found (find_one col q) \<longleftrightarrow> find_one col q \<noteq> None"
  using find_one_Some [of col q] matches_nonempty [of q]
  by (cases "find_one col q") auto

lemma found_exact: "found (exact_match col sid) \<longleftrightarrow> exact_match col sid \<noteq> None"
  by (simp add: exact_match_def found_find_one)

lemma found_numeric: "found (numeric_match P col ds) \<longleftrightarrow> numeric_match P col ds \<noteq> None"
  by (simp add: numeric_match_def found_find_one split: sum.splits)

lemma found_substring: "found (substring_match col ds) \<longleftrightarrow> substring_match col ds \<noteq> None"
  by (simp add: substring_match_def found_find_one)

lemma attempt2_numeric:
  "(if ds \<noteq> [] then
      (case py_int P ds of
         Inr n \<Rightarrow> (case find_one_int col n of Inr doc \<Rightarrow> doc | Inl e \<Rightarrow> None)
       | Inl e \<Rightarrow> None)
    else None) = numeric_match P col ds"
  by (simp add: numeric_match_def find_one_int_def split: sum.splits)

lemma attempt3_substring:
  "(if ds \<noteq> [] then find_one col (QSessionRegex ds) else None) = substring_match col ds"
  by (simp add: substring_match_def)

lemma scan_docs_find:
  "scan_docs P sid ds docs =
     List.find (\<lambda>d. session_text P d = sid \<or> contains ds (session_text P d)) docs"
  by (induction docs) (simp_all add: session_text_def dict_get_def Let_def)

lemma attempt4_fallback:
  "scan_docs P sid ds (find_limit col QAll 200) = fallback_scan P col sid ds"
  by (simp add: scan_docs_find find_limit_def fallback_scan_def)

lemma find_by_session_cascade:
  "find_by_session P col session_id =
     (if exact_match col (strip session_id) \<noteq> None then exact_match col (strip session_id)
      else if numeric_match P col (digits_of (strip session_id)) \<noteq> None
      then numeric_match P col (digits_of (strip session_id))
      else if substring_match col (digits_of (strip session_id)) \<noteq> None
      then substring_match col (digits_of (strip session_id))
      else fallback_scan P col (strip session_id) (digits_of (strip session_id)))"
  unfolding find_by_session_def Let_def attempt2_numeric attempt3_substring attempt4_fallback
    found_numeric found_substring
  by (simp add: found_exact [unfolded exact_match_def] exact_match_def)

lemma strip_42: "strip ''42'' = ''42''"
  by (simp add: strip_def isspace_def)

text \<open>
  C3. The resolver tries its four strategies in order, on the trimmed input and its digits,
  and returns at the first that hits: the exact string match when it hits; otherwise the
  numeric match when it hits; otherwise the substring match when it hits; otherwise the
  result of the bounded fallback scan. Exact string match is thus ahead of every looser
  strategy: in a store that holds a document whose \<^verbatim>\<open>sessionId\<close> is the string
  \<^verbatim>\<open>"42"\<close> and another whose \<^verbatim>\<open>sessionId\<close> is the integer 4299, resolving
  \<^verbatim>\<open>"42"\<close> returns what the exact-string query returns: a stored document with
  \<^verbatim>\<open>sessionId = "42"\<close>, not the document with 4299.
\<close>

theorem resolver_exact_precedence:
  "(exact_match col (strip session_id) \<noteq> None \<longrightarrow>
      find_by_session P col session_id = exact_match col (strip session_id)) \<and>
   (exact_match col (strip session_id) = None \<and>
    numeric_match P col (digits_of (strip session_id)) \<noteq> None \<longrightarrow>
      find_by_session P col session_id = numeric_match P col (digits_of (strip session_id))) \<and>
   (exact_match col (strip session_id) = None \<and>
    numeric_match P col (digits_of (strip session_id)) = None \<and>
    substring_match col (digits_of (strip session_id)) \<noteq> None \<longrightarrow>
      find_by_session P col session_id = substring_match col (digits_of (strip session_id))) \<and>
   (exact_match col (strip session_id) = None \<and>
    numeric_match P col (digits_of (strip session_id)) = None \<and>
    substring_match col (digits_of (strip session_id)) = None \<longrightarrow>
      find_by_session P col session_id =
        fallback_scan P col (strip session_id) (digits_of (strip session_id))) \<and>
   (d1 \<in> set col \<and> map_of d1 ''sessionId'' = Some (VStr ''42'') \<and>
    d2 \<in> set col \<and> map_of d2 ''sessionId'' = Some (VInt 4299) \<longrightarrow>
      find_by_session P col ''42'' = find_one col (QSessionStr ''42'') \<and>
      (\<exists>d. find_by_session P col ''42'' = Some d \<and> d \<in> set col \<and>
           map_of d ''sessionId'' = Some (VStr ''42'') \<and> d \<noteq> d2))"
proof -
  have s: "d1 \<in> set col \<and> map_of d1 ''sessionId'' = Some (VStr ''42'') \<and>
      d2 \<in> set col \<and> map_of d2 ''sessionId'' = Some (VInt 4299) \<longrightarrow>
        find_by_session P col ''42'' = find_one col (QSessionStr ''42'') \<and>
        (\<exists>d. find_by_session P col ''42'' = Some d \<and> d \<in> set col \<and>
             map_of d ''sessionId'' = Some (VStr ''42'') \<and> d \<noteq> d2)"
  proof (intro impI, elim conjE)
    assume a: "d1 \<in> set col" "map_of d1 ''sessionId'' = Some (VStr ''42'')"
      "map_of d2 ''sessionId'' = Some (VInt 4299)"
    have f: "found (find_one col (QSessionStr ''42''))"
      using a(1,2) by (auto simp: found_find_one_str)
    then have eq: "find_by_session P col ''42'' = find_one col (QSessionStr ''42'')"
      by (simp add: find_by_session_cascade strip_42 exact_match_def found_find_one)
    from f obtain d where d: "find_one col (QSessionStr ''42'') = Some d"
      by (cases "find_one col (QSessionStr ''42'')") auto
    then have "d \<in> set col" and m: "map_of d ''sessionId'' = Some (VStr ''42'')"
      using find_one_Some [OF d] by auto
    moreover from m a(3) have "d \<noteq> d2" by auto
    ultimately show "find_by_session P col ''42'' = find_one col (QSessionStr ''42'') \<and>
        (\<exists>d. find_by_session P col ''42'' = Some d \<and> d \<in> set col \<and>
             map_of d ''sessionId'' = Some (VStr ''42'') \<and> d \<noteq> d2)"
      using eq d by simp
  qed
  show ?thesis
    by (intro conjI s) (simp_all add: find_by_session_cascade)
qed

lemma sample_session:
  "map_of doc_4299 ''sessionId'' = Some (VInt 4299)"
  "map_of doc_analysed ''sessionId'' = Some (VInt 5551234)"
  "map_of doc_pending ''sessionId'' = Some (VStr ''42'')"
  "map_of doc_lower ''sessionId'' = Some (VStr ''xyz'')"
  by (simp_all add: doc_4299_def doc_analysed_def doc_pending_def doc_lower_def)

lemma sample_strip:
  "strip ''555-1234'' = ''555-1234''" "strip ''4'' = ''4''" "strip ''99'' = ''99''"
  "strip ''abc'' = ''abc''"
  by (simp_all add: strip_def isspace_def)

lemma sample_digits:
  "digits_of ''42'' = ''42''" "digits_of ''555-1234'' = ''5551234''" "digits_of ''4'' = ''4''"
  "digits_of ''99'' = ''99''" "digits_of ''abc'' = []"
  by (simp_all add: digits_of_def isdigit_def)

lemma py_int_small:
  assumes "ds \<noteq> []" and "list_all decimal ds" and "length ds \<le> 640"
  shows "py_int P ds = Inr (int_of_digits ds)"
  using assms by (simp add: py_int_def split: option.splits)

lemma sample_int:
  "py_int P ''42'' = Inr 42" "py_int P ''5551234'' = Inr 5551234" "py_int P ''4'' = Inr 4"
  "py_int P ''99'' = Inr 99"
  by (simp_all add: py_int_small decimal_def int_of_digits_def)

lemma digit_chars:
  "char_of (48 :: nat) = CHR ''0''" "char_of (49 :: nat) = CHR ''1''" "char_of (50 :: nat) = CHR ''2''"
  "char_of (51 :: nat) = CHR ''3''" "char_of (52 :: nat) = CHR ''4''" "char_of (53 :: nat) = CHR ''5''"
  "char_of (54 :: nat) = CHR ''6''" "char_of (55 :: nat) = CHR ''7''" "char_of (56 :: nat) = CHR ''8''"
  "char_of (57 :: nat) = CHR ''9''"
  by (simp_all add: char_of_def bit_0)

lemma str_4299: "str_int 4299 = ''4299''"
  by (simp add: str_int_def str_nat.simps [of 4299] str_nat.simps [of 429] str_nat.simps [of 42]
        str_nat.simps [of 4] digit_chars)

lemma sample_text:
  "session_text rat_platform doc_4299 = ''4299''"
  "session_text rat_platform doc_pending = ''42''"
  "session_text rat_platform doc_lower = ''xyz''"
  by (simp_all add: session_text_def sample_session str_4299)

lemma sample_exact:
  "exact_match [doc_4299, doc_analysed, doc_pending, doc_lower] ''42'' = Some doc_pending"
  "exact_match [doc_4299, doc_analysed, doc_pending, doc_lower] ''555-1234'' = None"
  "exact_match [doc_4299, doc_analysed, doc_pending, doc_lower] ''4'' = None"
  "exact_match [doc_4299, doc_analysed, doc_pending, doc_lower] ''99'' = None"
  by (simp_all add: exact_match_def find_one_def sample_session)

lemma sample_numeric:
  "numeric_match rat_platform [doc_4299, doc_analysed, doc_pending, doc_lower] ''5551234'' = Some doc_analysed"
  "numeric_match rat_platform [doc_4299, doc_analysed, doc_pending, doc_lower] ''4'' = None"
  "numeric_match rat_platform [doc_4299, doc_analysed, doc_pending, doc_lower] ''99'' = None"
  by (simp_all add: numeric_match_def sample_int find_one_def sample_session)

lemma sample_substring:
  "substring_match [doc_4299, doc_analysed, doc_pending, doc_lower] ''4'' = Some doc_pending"
  "substring_match [doc_4299, doc_analysed, doc_pending, doc_lower] ''99'' = None"
  by (simp_all add: substring_match_def find_one_def sample_session)

lemma sample_fallback:
  "fallback_scan rat_platform [doc_4299, doc_analysed, doc_pending, doc_lower] ''99'' ''99'' = Some doc_4299"
  by (simp add: fallback_scan_def sample_text)

theorem resolver_exact_precedence_witness:
  "exact_match [doc_4299, doc_analysed, doc_pending, doc_lower] (strip ''42'') = Some doc_pending \<and>
   find_by_session rat_platform [doc_4299, doc_analysed, doc_pending, doc_lower] ''42'' = Some doc_pending \<and>
   exact_match [doc_4299, doc_analysed, doc_pending, doc_lower] (strip ''555-1234'') = None \<and>
   numeric_match rat_platform [doc_4299, doc_analysed, doc_pending, doc_lower]
     (digits_of (strip ''555-1234'')) = Some doc_analysed \<and>
   find_by_session rat_platform [doc_4299, doc_analysed, doc_pending, doc_lower] ''555-1234'' = Some doc_analysed \<and>
   exact_match [doc_4299, doc_analysed, doc_pending, doc_lower] (strip ''4'') = None \<and>
   numeric_match rat_platform [doc_4299, doc_analysed, doc_pending, doc_lower] (digits_of (strip ''4'')) = None \<and>
   substring_match [doc_4299, doc_analysed, doc_pending, doc_lower] (digits_of (strip ''4'')) = Some doc_pending \<and>
   find_by_session rat_platform [doc_4299, doc_analysed, doc_pending, doc_lower] ''4'' = Some doc_pending \<and>
   exact_match [doc_4299, doc_analysed, doc_pending, doc_lower] (strip ''99'') = None \<and>
   numeric_match rat_platform [doc_4299, doc_analysed, doc_pending, doc_lower] (digits_of (strip ''99'')) = None \<and>
   substring_match [doc_4299, doc_analysed, doc_pending, doc_lower] (digits_of (strip ''99'')) = None \<and>
   fallback_scan rat_platform [doc_4299, doc_analysed, doc_pending, doc_lower]
     (strip ''99'') (digits_of (strip ''99'')) = Some doc_4299 \<and>
   find_by_session rat_platform [doc_4299, doc_analysed, doc_pending, doc_lower] ''99'' = Some doc_4299 \<and>
   doc_pending \<in> set [doc_4299, doc_analysed, doc_pending, doc_lower] \<and>
   map_of doc_pending ''sessionId'' = Some (VStr ''42'') \<and>
   doc_4299 \<in> set [doc_4299, doc_analysed, doc_pending, doc_lower] \<and>
   map_of doc_4299 ''sessionId'' = Some (VInt 4299) \<and>
   doc_pending \<noteq> doc_4299"
  using
    resolver_exact_precedence [of "[doc_4299, doc_analysed, doc_pending, doc_lower]" "''42''"
      rat_platform doc_pending doc_4299]
    resolver_exact_precedence [of "[doc_4299, doc_analysed, doc_pending, doc_lower]" "''555-1234''"
      rat_platform doc_pending doc_4299]
    resolver_exact_precedence [of "[doc_4299, doc_analysed, doc_pending, doc_lower]" "''4''"
      rat_platform doc_pending doc_4299]
    resolver_exact_precedence [of "[doc_4299, doc_analysed, doc_pending, doc_lower]" "''99''"
      rat_platform doc_pending doc_4299]
  by (simp add: strip_42 sample_strip sample_digits sample_exact sample_numeric sample_substring
        sample_fallback sample_session)

text \<open>
  C6. Whenever no document has the trimmed identifier as its string \<^verbatim>\<open>sessionId\<close>,
  the digits of the trimmed identifier parse as an integer \<open>n\<close> that fits the store's
  8-byte integers, and a document has \<open>n\<close> as its \<^verbatim>\<open>sessionId\<close>, the resolver
  returns what the integer query for \<open>n\<close> returns: a stored document with that integer as
  its \<^verbatim>\<open>sessionId\<close>. For \<^verbatim>\<open>"555-1234"\<close> the digits are \<^verbatim>\<open>"5551234"\<close> and
  the integer is 5551234: in a store that holds a document whose \<^verbatim>\<open>sessionId\<close> is the
  integer 5551234 and none whose \<^verbatim>\<open>sessionId\<close> is the string \<^verbatim>\<open>"555-1234"\<close>,
  resolving \<^verbatim>\<open>"555-1234"\<close> returns such a document by the numeric match.
\<close>

theorem resolver_numeric_fallback:
  assumes "d \<in> set col" and "map_of d ''sessionId'' = Some (VInt n)"
    and "\<forall>e \<in> set col. map_of e ''sessionId'' \<noteq> Some (VStr (strip session_id))"
    and "py_int P (digits_of (strip session_id)) = Inr n" and "n \<le> 9223372036854775807"
  shows "find_by_session P col session_id = find_one col (QSessionInt n) \<and>
         (\<exists>e. find_by_session P col session_id = Some e \<and> e \<in> set col \<and>
              map_of e ''sessionId'' = Some (VInt n)) \<and>
         digits_of (strip ''555-1234'') = ''5551234'' \<and> py_int P ''5551234'' = Inr 5551234"
proof -
  have n1: "exact_match col (strip session_id) = None"
    using assms(3) by (simp add: exact_match_def find_one_None)
  have ne: "digits_of (strip session_id) \<noteq> []"
    using assms(4) by (auto simp: py_int_def)
  have f2: "found (find_one col (QSessionInt n))"
    using assms(1,2) by (auto simp: found_find_one_int)
  then obtain e where e: "find_one col (QSessionInt n) = Some e"
    by (cases "find_one col (QSessionInt n)") auto
  have nm: "numeric_match P col (digits_of (strip session_id)) = find_one col (QSessionInt n)"
    using ne assms(4,5) by (simp add: numeric_match_def)
  have eq: "find_by_session P col session_id = find_one col (QSessionInt n)"
    using n1 nm e by (simp add: find_by_session_cascade)
  have "e \<in> set col \<and> map_of e ''sessionId'' = Some (VInt n)"
    using find_one_Some [OF e] by auto
  then show ?thesis using eq e by (simp add: sample_strip sample_digits sample_int)
qed

theorem resolver_numeric_fallback_witness:
  "doc_analysed \<in> set [doc_pending, doc_analysed] \<and>
   map_of doc_analysed ''sessionId'' = Some (VInt 5551234) \<and>
   map_of doc_pending ''sessionId'' \<noteq> Some (VStr (strip ''555-1234'')) \<and>
   map_of doc_analysed ''sessionId'' \<noteq> Some (VStr (strip ''555-1234'')) \<and>
   py_int rat_platform (digits_of (strip ''555-1234'')) = Inr 5551234 \<and>
   (5551234 :: int) \<le> 9223372036854775807 \<and>
   find_by_session rat_platform [doc_pending, doc_analysed] ''555-1234'' = Some doc_analysed"
proof -
  have h1: "doc_analysed \<in> set [doc_pending, doc_analysed]" by simp
  have h2: "map_of doc_analysed ''sessionId'' = Some (VInt 5551234)" by (simp add: sample_session)
  have h3: "\<forall>e \<in> set [doc_pending, doc_analysed]. map_of e ''sessionId'' \<noteq> Some (VStr (strip ''555-1234''))"
    by (simp add: sample_session sample_strip)
  have h4: "py_int rat_platform (digits_of (strip ''555-1234'')) = Inr 5551234"
    by (simp add: sample_strip sample_digits sample_int)
  have h5: "(5551234 :: int) \<le> 9223372036854775807" by simp
  have e: "find_one [doc_pending, doc_analysed] (QSessionInt 5551234) = Some doc_analysed"
    by (simp add: find_one_def sample_session)
  show ?thesis
    using h1 h2 h3 h4 e resolver_numeric_fallback [OF h1 h2 h3 h4 h5] by simp
qed

text \<open>
  C4 fails on the code. The identifier \<^verbatim>\<open>abc\<close> has no digits and occurs in no document
  of the store, whose only document has the \<^verbatim>\<open>sessionId\<close> \<^verbatim>\<open>"xyz"\<close>. Attempts 2
  and 3 are skipped for want of digits, but the scan of attempt 4 tests
  \<^verbatim>\<open>digits in doc_sid\<close> with the empty string, which holds for every document: the
  resolver returns the first document of the scan and the endpoint answers with that lead
  instead of the 404.
\<close>

theorem resolver_digitless_identifier:
  "digits_of (strip ''abc'') = [] \<and>
   map_of doc_lower ''sessionId'' = Some (VStr ''xyz'') \<and>
   find_by_session rat_platform [doc_lower] ''abc'' = Some doc_lower \<and>
   get_lead rat_platform [doc_lower] ''abc'' =
     Inr (dict_set ''chat'' (VList []) (flatten_lead rat_platform doc_lower))"
proof -
  have d: "digits_of (strip ''abc'') = []"
    by (simp add: sample_strip sample_digits)
  have f: "find_by_session rat_platform [doc_lower] ''abc'' = Some doc_lower"
    by (simp add: find_by_session_cascade sample_strip sample_digits exact_match_def find_one_def
          sample_session numeric_match_def substring_match_def fallback_scan_def sample_text)
  have c: "extract_chat rat_platform doc_lower = []"
    by (simp add: extract_chat_def Let_def dict_get_def serialize_doc_def doc_lower_def)
  have n: "doc_lower \<noteq> []"
    by (simp add: doc_lower_def)
  show ?thesis
    using d f c n by (simp add: get_lead_def Let_def sample_session)
qed

section \<open>Chat extraction\<close>

lemma chat_loop_step:
  "chat_loop P (m # ms) chat =
     chat_loop P ms (case chat_entry P m of Some c \<Rightarrow> chat @ [c] | None \<Rightarrow> chat)"
  by (cases m)
     (auto simp: chat_entry_def entry_content_def dict_get_def Let_def
           split: option.splits pyval.splits)

lemma chat_loop_map_filter:
  "chat_loop P ms chat = chat @ List.map_filter (chat_entry P) ms"
proof (induction ms arbitrary: chat)
  case Nil
  show ?case by (simp add: map_filter_simps)
next
  case (Cons m ms)
  show ?case
    unfolding chat_loop_step Cons.IH
    by (cases "chat_entry P m") (simp_all add: map_filter_simps)
qed

lemma extract_chat_chat_spec: "extract_chat P doc = chat_spec P doc"
proof (cases "map_of doc ''messages''")
  case None
  then show ?thesis
    by (simp add: extract_chat_def chat_spec_def Let_def dict_get_def map_of_serialize_doc)
next
  case (Some v)
  then show ?thesis
    by (cases v)
       (simp_all add: extract_chat_def chat_spec_def Let_def dict_get_def map_of_serialize_doc
          chat_loop_map_filter)
qed

lemma str_nat_nonempty: "str_nat n \<noteq> []"
  by (subst str_nat.simps) simp

lemma py_str_serialize_nonempty:
  assumes "\<forall>v. str_other P v \<noteq> []" and "truthy P (serialize v)"
  shows "py_str P (serialize v) \<noteq> []"
  using assms by (cases v) (auto simp: str_int_def str_nat_nonempty)

text \<open>Every value inside a sanitised entry is itself sanitised.\<close>

lemma entry_content_serialize:
  fixes m :: "'a pydict"
  shows "\<exists>c. entry_content (map (map_prod id serialize) m) = serialize c"
proof -
  have m: "map_of (map (map_prod id serialize) kvs) k = map_option serialize (map_of kvs k)"
    for kvs :: "'a pydict" and k
    by (rule map_of_serialize_doc [unfolded serialize_doc_def])
  show ?thesis
  proof (cases "map_of m ''data''")
    case None
    then have "entry_content (map (map_prod id serialize) m) = serialize (VStr '''')"
      by (simp add: entry_content_def m)
    then show ?thesis by blast
  next
    case (Some d)
    show ?thesis
    proof (cases d)
      case (VDict dkvs)
      show ?thesis
      proof (cases "map_of dkvs ''content''")
        case None
        with Some VDict have "entry_content (map (map_prod id serialize) m) = serialize (VStr '''')"
          by (simp add: entry_content_def m)
        then show ?thesis by blast
      next
        case (Some c)
        with \<open>map_of m ''data'' = Some d\<close> VDict
        have "entry_content (map (map_prod id serialize) m) = serialize c"
          by (simp add: entry_content_def m)
        then show ?thesis by blast
      qed
    next
      case (VStr s)
      with Some have "entry_content (map (map_prod id serialize) m) = serialize (VStr s)"
        by (simp add: entry_content_def m)
      then show ?thesis by blast
    qed (use Some in \<open>auto simp: entry_content_def m intro: serialize.simps(10) [symmetric]\<close>)
  qed
qed

lemma chat_entry_shape:
  assumes "\<forall>v. str_other P v \<noteq> []" and "chat_entry P (serialize e) = Some msg"
  shows "\<exists>t c. msg = VDict [(''type'', t), (''content'', VStr c)] \<and> c \<noteq> []"
proof (cases e)
  case (VDict m)
  obtain c where c: "entry_content (map (map_prod id serialize) m) = serialize c"
    using entry_content_serialize by blast
  from assms(2) VDict have t: "truthy P (serialize c)"
    and msg: "msg = VDict [(''type'', case map_of (map (map_prod id serialize) m) ''type'' of
                               Some t \<Rightarrow> t | None \<Rightarrow> VStr ''unknown''),
                          (''content'', VStr (py_str P (serialize c)))]"
    by (auto simp: chat_entry_def c split: if_splits)
  from py_str_serialize_nonempty [OF assms(1) t] msg show ?thesis by blast
qed (use assms(2) in \<open>simp_all add: chat_entry_def\<close>)

lemma chat_spec_shape:
  assumes "\<forall>v. str_other P v \<noteq> []" and "msg \<in> set (chat_spec P doc)"
  shows "\<exists>t c. msg = VDict [(''type'', t), (''content'', VStr c)] \<and> c \<noteq> []"
proof (cases "map_of doc ''messages''")
  case None
  with assms(2) show ?thesis by (simp add: chat_spec_def)
next
  case (Some v)
  show ?thesis
  proof (cases v)
    case (VList ms)
    with Some assms(2) have "msg \<in> set (List.map_filter (chat_entry P) (map serialize ms))"
      by (simp add: chat_spec_def)
    then obtain e where "chat_entry P (serialize e) = Some msg"
      by (auto simp: map_filter_def)
    with assms(1) show ?thesis by (rule chat_entry_shape)
  qed (use Some assms(2) in \<open>simp_all add: chat_spec_def\<close>)
qed

text \<open>
  C7. \<^verbatim>\<open>extract_chat\<close> returns for every document: the empty sequence when
  \<^verbatim>\<open>messages\<close> is absent or not a sequence, and otherwise the messages that the
  sanitised entries emit one by one, in the order of the entries, an entry that is not a
  mapping or whose content is empty emitting nothing. Every emitted message is a
  \<^verbatim>\<open>{type, content}\<close> pair whose content is a non-empty string (given that
  \<^verbatim>\<open>str()\<close> of a float, list or dict is never empty).
\<close>

theorem extract_chat_total_ordered:
  "extract_chat P doc = chat_spec P doc \<and>
   ((\<forall>v. str_other P v \<noteq> []) \<longrightarrow>
    (\<forall>msg \<in> set (extract_chat P doc).
       \<exists>t c. msg = VDict [(''type'', t), (''content'', VStr c)] \<and> c \<noteq> []))"
  using chat_spec_shape [of P _ doc] by (simp add: extract_chat_chat_spec)

theorem extract_chat_total_ordered_witness:
  "(\<forall>v. str_other rat_platform v \<noteq> []) \<and>
   extract_chat rat_platform doc_analysed =
     [VDict [(''type'', VStr ''human''), (''content'', VStr ''hi'')],
      VDict [(''type'', VStr ''unknown''), (''content'', VStr ''price?'')]]"
proof -
  have h: "\<forall>v. str_other rat_platform v \<noteq> []"
    by (simp add: rat_platform_def split: pyval.splits)
  have e: "chat_spec rat_platform doc_analysed =
     [VDict [(''type'', VStr ''human''), (''content'', VStr ''hi'')],
      VDict [(''type'', VStr ''unknown''), (''content'', VStr ''price?'')]]"
    by (simp add: chat_spec_def doc_analysed_def map_filter_simps chat_entry_def entry_content_def)
  show ?thesis
    using h e extract_chat_total_ordered [of rat_platform doc_analysed] by simp
qed

section \<open>Listing\<close>

lemma flatten_lead_has_field:
  assumes "k \<in> set lead_fields"
  obtains v where "map_of (flatten_lead P d) k = Some v"
proof -
  have "k \<in> fst ` set (flatten_lead P d)"
    using assms flatten_lead_keys [of P d] by (metis list.set_map)
  then have "map_of (flatten_lead P d) k \<noteq> None"
    by (simp add: map_of_eq_None_iff)
  then show ?thesis using that by blast
qed

lemma lead_kept_flatten:
  "lead_kept P intent qualified (flatten_lead P d) = Inr (passes P intent qualified (flatten_lead P d))"
proof -
  obtain vi where vi: "map_of (flatten_lead P d) ''intent'' = Some vi"
    by (rule flatten_lead_has_field [of "''intent''"]) (simp add: lead_fields_def)
  obtain vq where vq: "map_of (flatten_lead P d) ''qualified'' = Some vq"
    by (rule flatten_lead_has_field [of "''qualified''"]) (simp add: lead_fields_def)
  show ?thesis
    by (auto simp: lead_kept_def passes_def and_then_def dict_item_def flatten_lead_hasOutput vi vq
             split: option.splits)
qed

lemma leads_loop_filter:
  "leads_loop P intent qualified docs acc =
     Inr (acc @ filter (passes P intent qualified) (map (flatten_lead P) docs))"
  by (induction docs arbitrary: acc) (simp_all add: Let_def lead_kept_flatten)

lemma py_slice_take_drop:
  assumes "0 \<le> i" and "0 \<le> l"
  shows "py_slice xs i (i + l) = take (nat l) (drop (nat i) xs)"
proof (cases "i \<le> int (length xs)")
  case True
  have "nat (min (i + l) (int (length xs)) - i) = min (nat l) (length xs - nat i)"
    using assms True by (simp add: min_def) linarith
  then show ?thesis
    using assms True by (simp add: py_slice_def Let_def min_absorb1 take_all_iff min_def)
next
  case False
  then have "drop (nat i) xs = []" by simp
  with assms False show ?thesis
    by (simp add: py_slice_def Let_def min_def)
qed

lemma list_leads_eq:
  assumes "sort_order = ''asc'' \<or> sort_order = ''desc''" and "0 \<le> skip" and "1 \<le> limit" and "limit \<le> 200"
  shows "list_leads P col search intent qualified sort_order skip limit =
           Inr \<lparr>r_leads = take (nat limit) (drop (nat skip) (kept_leads P col search intent qualified sort_order)),
                r_total = int (length (kept_leads P col search intent qualified sort_order)),
                r_skip = skip, r_limit = limit,
                r_hasMore = (skip + limit < int (length (kept_leads P col search intent qualified sort_order)))\<rparr>"
  using assms
  by (simp add: list_leads_def Let_def leads_loop_filter py_slice_take_drop kept_leads_def list_window_def)

lemma list_leads_Inr:
  assumes "list_leads P col search intent qualified sort_order skip limit = Inr r"
  shows "(sort_order = ''asc'' \<or> sort_order = ''desc'') \<and> 0 \<le> skip \<and> 1 \<le> limit \<and> limit \<le> 200"
  using assms by (auto simp: list_leads_def split: if_splits)

text \<open>
  C8. For valid query parameters the list operation answers with the count of the
  fetched-and-filtered leads as \<^verbatim>\<open>total\<close>, with their contiguous slice from
  \<^verbatim>\<open>skip\<close> to \<^verbatim>\<open>skip + limit\<close> as \<^verbatim>\<open>leads\<close>, and with
  \<^verbatim>\<open>hasMore\<close> true exactly when \<^verbatim>\<open>skip + limit < total\<close>; with three such leads,
  \<^verbatim>\<open>skip = 0\<close> and \<^verbatim>\<open>limit = 1\<close> give one lead, total 3 and \<^verbatim>\<open>hasMore\<close>.
\<close>

theorem list_pagination:
  assumes "sort_order = ''asc'' \<or> sort_order = ''desc''" and "0 \<le> skip" and "1 \<le> limit" and "limit \<le> 200"
  shows "\<exists>r. list_leads P col search intent qualified sort_order skip limit = Inr r \<and>
           r_total r = int (length (kept_leads P col search intent qualified sort_order)) \<and>
           r_leads r = take (nat limit) (drop (nat skip) (kept_leads P col search intent qualified sort_order)) \<and>
           (\<forall>k < length (r_leads r).
              r_leads r ! k = kept_leads P col search intent qualified sort_order ! (nat skip + k)) \<and>
           (r_hasMore r \<longleftrightarrow> skip + limit < r_total r) \<and>
           (length (kept_leads P col search intent qualified sort_order) = 3 \<and> skip = 0 \<and> limit = 1 \<longrightarrow>
              length (r_leads r) = 1 \<and> r_total r = 3 \<and> r_hasMore r)"
  using list_leads_eq [OF assms, of P col search intent "qualified"] by auto

text \<open>
  C9. Whatever the store and the query parameters, every lead of a list response has
  \<^verbatim>\<open>hasOutput = true\<close>, and the flattening of a pending document is never among them.
\<close>

theorem list_only_analysed:
  assumes "list_leads P col search intent qualified sort_order skip limit = Inr r"
  shows "(\<forall>lead \<in> set (r_leads r). dict_item lead ''hasOutput'' = Inr (VBool True)) \<and>
         (\<forall>d. \<not> analysed d \<longrightarrow> flatten_lead P d \<notin> set (r_leads r))"
proof -
  from list_leads_Inr [OF assms] list_leads_eq [of sort_order skip limit P col search intent "qualified"] assms
  have "r_leads r = take (nat limit) (drop (nat skip) (kept_leads P col search intent qualified sort_order))"
    by auto
  then have "set (r_leads r) \<subseteq> set (kept_leads P col search intent qualified sort_order)"
    by (metis set_take_subset set_drop_subset subset_trans)
  then have a: "\<forall>lead \<in> set (r_leads r). map_of lead ''hasOutput'' = Some (VBool True)"
    by (auto simp: kept_leads_def passes_def)
  then have "\<forall>d. \<not> analysed d \<longrightarrow> flatten_lead P d \<notin> set (r_leads r)"
    by (auto simp: flatten_lead_hasOutput)
  with a show ?thesis by (simp add: dict_item_def)
qed

lemma upper_char_fixed:
  assumes "upper_char c = Some w"
  shows "upper w = Some w"
proof -
  have "(of_char c :: nat) < 256"
    by simp
  with assms show ?thesis
    by (auto simp: upper_char_def upper.simps Let_def split: if_splits)
qed

lemma upper_append:
  "upper (a @ b) =
     (case upper a of None \<Rightarrow> None
      | Some u \<Rightarrow> (case upper b of None \<Rightarrow> None | Some v \<Rightarrow> Some (u @ v)))"
  by (induction a) (simp_all add: upper.simps split: option.splits)

lemma upper_idem:
  "upper q = Some u \<Longrightarrow> upper u = Some u"
proof (induction q arbitrary: u)
  case Nil
  then show ?case by (simp add: upper.simps)
next
  case (Cons c cs)
  then obtain w us where w: "upper_char c = Some w" and us: "upper cs = Some us" and u: "u = w @ us"
    by (auto simp: upper.simps split: option.splits)
  from Cons.IH [OF us] upper_char_fixed [OF w] show ?case
    by (simp add: u upper_append)
qed

lemma passes_intent:
  "passes P intent None lead \<longleftrightarrow>
     dict_item lead ''hasOutput'' = Inr (VBool True) \<and>
     (case intent of
        None \<Rightarrow> True
      | Some q \<Rightarrow> q = [] \<or> (\<exists>u. upper q = Some u \<and> dict_item lead ''intent'' = Inr (VStr u)))"
  by (auto simp: passes_def dict_item_def split: option.splits)

text \<open>
  C5, as the code has it. The intent filter upper-cases the query parameter and compares it
  with the stored intent as it is: for valid parameters (and no \<^verbatim>\<open>qualified\<close>
  parameter), the filtered sequence that the response counts and slices consists of exactly
  the flattened leads of the fetched window that have output and, when the intent parameter
  is present and not empty, whose intent equals the upper-cased parameter. An empty intent
  parameter filters nothing: the response is that of a request without the parameter. The
  match is insensitive to the case of the parameter: two non-empty parameters with the same
  upper-casing get the same response. It is not insensitive to the case of the stored
  intent: the intent of a listed lead is its own upper-casing, so a stored intent that is
  not upper-case is matched by no non-empty parameter.
\<close>

theorem list_intent_filter:
  assumes "sort_order = ''asc'' \<or> sort_order = ''desc''" and "0 \<le> skip" and "1 \<le> limit" and "limit \<le> 200"
  shows "(\<exists>r. list_leads P col search intent None sort_order skip limit = Inr r \<and>
            r_total r =
              int (length (filter (\<lambda>lead. dict_item lead ''hasOutput'' = Inr (VBool True) \<and>
                                     (case intent of
                                        None \<Rightarrow> True
                                      | Some q \<Rightarrow>
                                          q = [] \<or> (\<exists>u. upper q = Some u \<and>
                                                       dict_item lead ''intent'' = Inr (VStr u))))
                             (map (flatten_lead P) (list_window P col search sort_order)))) \<and>
            r_leads r =
              take (nat limit) (drop (nat skip)
                (filter (\<lambda>lead. dict_item lead ''hasOutput'' = Inr (VBool True) \<and>
                           (case intent of
                              None \<Rightarrow> True
                            | Some q \<Rightarrow>
                                q = [] \<or> (\<exists>u. upper q = Some u \<and>
                                             dict_item lead ''intent'' = Inr (VStr u))))
                   (map (flatten_lead P) (list_window P col search sort_order))))) \<and>
         list_leads P col search (Some []) None sort_order skip limit =
           list_leads P col search None None sort_order skip limit \<and>
         (q1 \<noteq> [] \<and> q2 \<noteq> [] \<and> upper q1 = upper q2 \<longrightarrow>
            list_leads P col search (Some q1) None sort_order skip limit =
              list_leads P col search (Some q2) None sort_order skip limit) \<and>
         (q1 \<noteq> [] \<and> list_leads P col search (Some q1) None sort_order skip limit = Inr res \<and>
          lead \<in> set (r_leads res) \<and> dict_item lead ''intent'' = Inr (VStr s) \<longrightarrow>
            upper q1 = Some s \<and> upper s = Some s)"
proof -
  have k: "kept_leads P col search i None sort_order =
             filter (\<lambda>lead. dict_item lead ''hasOutput'' = Inr (VBool True) \<and>
                        (case i of
                           None \<Rightarrow> True
                         | Some q \<Rightarrow>
                             q = [] \<or> (\<exists>u. upper q = Some u \<and>
                                          dict_item lead ''intent'' = Inr (VStr u))))
               (map (flatten_lead P) (list_window P col search sort_order))" for i
    unfolding kept_leads_def by (intro filter_cong refl) (rule passes_intent)
  note e = list_leads_eq [OF assms, of P col search _ None]
  have c1: "\<exists>r. list_leads P col search intent None sort_order skip limit = Inr r \<and>
            r_total r =
              int (length (filter (\<lambda>lead. dict_item lead ''hasOutput'' = Inr (VBool True) \<and>
                                     (case intent of
                                        None \<Rightarrow> True
                                      | Some q \<Rightarrow>
                                          q = [] \<or> (\<exists>u. upper q = Some u \<and>
                                                       dict_item lead ''intent'' = Inr (VStr u))))
                             (map (flatten_lead P) (list_window P col search sort_order)))) \<and>
            r_leads r =
              take (nat limit) (drop (nat skip)
                (filter (\<lambda>lead. dict_item lead ''hasOutput'' = Inr (VBool True) \<and>
                           (case intent of
                              None \<Rightarrow> True
                            | Some q \<Rightarrow>
                                q = [] \<or> (\<exists>u. upper q = Some u \<and>
                                             dict_item lead ''intent'' = Inr (VStr u))))
                   (map (flatten_lead P) (list_window P col search sort_order))))"
    using e [of intent] by (simp add: k)
  have c2: "list_leads P col search (Some []) None sort_order skip limit =
              list_leads P col search None None sort_order skip limit"
    by (simp add: e k)
  have c3: "q1 \<noteq> [] \<and> q2 \<noteq> [] \<and> upper q1 = upper q2 \<longrightarrow>
            list_leads P col search (Some q1) None sort_order skip limit =
              list_leads P col search (Some q2) None sort_order skip limit"
    by (simp add: e k)
  have c4: "q1 \<noteq> [] \<and> list_leads P col search (Some q1) None sort_order skip limit = Inr res \<and>
          lead \<in> set (r_leads res) \<and> dict_item lead ''intent'' = Inr (VStr s) \<longrightarrow>
            upper q1 = Some s \<and> upper s = Some s"
  proof (intro impI, elim conjE)
    assume q: "q1 \<noteq> []"
      and r: "list_leads P col search (Some q1) None sort_order skip limit = Inr res"
      and l: "lead \<in> set (r_leads res)" and s: "dict_item lead ''intent'' = Inr (VStr s)"
    from r e [of "Some q1"]
    have "r_leads res = take (nat limit) (drop (nat skip) (kept_leads P col search (Some q1) None sort_order))"
      by auto
    then have "set (r_leads res) \<subseteq> set (kept_leads P col search (Some q1) None sort_order)"
      by (metis set_take_subset set_drop_subset subset_trans)
    with l have "passes P (Some q1) None lead"
      by (auto simp: kept_leads_def)
    with q s have "upper q1 = Some s"
      by (auto simp: passes_intent)
    then show "upper q1 = Some s \<and> upper s = Some s"
      by (simp add: upper_idem)
  qed
  from c1 c2 c3 c4 show ?thesis
    by (intro conjI)
qed

lemma passes_unfiltered: "passes P None None (flatten_lead P d) = analysed d"
  by (simp add: passes_def flatten_lead_hasOutput)

lemma flatten_lead_intent_item:
  assumes "analysed d"
  shows "dict_item (flatten_lead P d) ''intent'' =
           Inr (case map_of (as_dict (dict_get d ''output'' VNull)) ''intent'' of
                  Some v \<Rightarrow> serialize v | None \<Rightarrow> VStr ''UNKNOWN'')"
proof -
  from assms obtain out where o: "map_of d ''output'' = Some (VDict out)" "out \<noteq> []"
    by (rule analysed_output)
  then show ?thesis
    using flatten_lead_analysed_fields(2) [OF o, of P]
    by (simp add: dict_item_def dict_get_def)
qed

lemma flatten_lead_hasOutput_item:
  "dict_item (flatten_lead P d) ''hasOutput'' = Inr (VBool (analysed d))"
  by (simp add: dict_item_def flatten_lead_hasOutput)

lemma sample_analysed:
  "analysed doc_analysed" "analysed doc_lower" "analysed doc_4299" "\<not> analysed doc_pending"
  by (simp_all add: analysed_def doc_analysed_def doc_lower_def doc_4299_def doc_pending_def)

lemma sample_keys:
  "dict_get doc_analysed ''analysedAt'' VNull = VDatetime ''2024-05-01T10:00:00''"
  "dict_get doc_lower ''analysedAt'' VNull = VNull"
  "dict_get doc_4299 ''analysedAt'' VNull = VNull"
  "dict_get doc_pending ''analysedAt'' VNull = VNull"
  by (simp_all add: dict_get_def doc_analysed_def doc_lower_def doc_4299_def doc_pending_def)

lemma sample_intent_upper:
  "dict_item (flatten_lead P doc_analysed) ''intent'' = Inr (VStr ''PURCHASE'')"
  by (simp add: flatten_lead_intent_item sample_analysed) (simp add: doc_analysed_def dict_get_def)

lemma sample_intent_lower:
  "dict_item (flatten_lead P doc_lower) ''intent'' = Inr (VStr ''purchase'')"
  by (simp add: flatten_lead_intent_item sample_analysed) (simp add: doc_lower_def dict_get_def)

lemmas sample_intents = sample_intent_upper sample_intent_lower

lemma sample_order:
  "bson_le rat_platform VNull VNull" "bson_le rat_platform VNull (VDatetime s)"
  "\<not> bson_le rat_platform (VDatetime s) VNull"
  by (simp_all add: rat_platform_def)

lemma window_asc:
  "list_window rat_platform [doc_pending, doc_analysed, doc_lower, doc_4299] None ''asc'' =
     [doc_pending, doc_lower, doc_4299, doc_analysed]"
  by (simp add: list_window_def find_sort_limit_def mongo_query_def sample_keys sample_order)

lemma kept_sample:
  "kept_leads rat_platform [doc_pending, doc_analysed, doc_lower, doc_4299] None None None ''asc'' =
     [flatten_lead rat_platform doc_lower, flatten_lead rat_platform doc_4299,
      flatten_lead rat_platform doc_analysed]"
  by (simp add: kept_leads_def window_asc passes_unfiltered sample_analysed)

theorem list_pagination_witness:
  "(''asc'' = ''asc'' \<or> ''asc'' = ''desc'') \<and> (0::int) \<le> 0 \<and> (1::int) \<le> 1 \<and> (1::int) \<le> 200 \<and>
   length (kept_leads rat_platform [doc_pending, doc_analysed, doc_lower, doc_4299] None None None ''asc'') = 3 \<and>
   (\<exists>r. list_leads rat_platform [doc_pending, doc_analysed, doc_lower, doc_4299] None None None ''asc'' 0 1 = Inr r \<and>
        r_leads r = [flatten_lead rat_platform doc_lower] \<and> r_total r = 3 \<and> r_hasMore r)"
  using list_pagination [of "''asc''" 0 1 rat_platform
          "[doc_pending, doc_analysed, doc_lower, doc_4299]" None None None]
  by (auto simp: kept_sample)

lemma window_two:
  "list_window rat_platform [doc_pending, doc_analysed] None ''asc'' = [doc_pending, doc_analysed]"
  by (simp add: list_window_def find_sort_limit_def mongo_query_def sample_keys sample_order)

lemma list_sample:
  "list_leads rat_platform [doc_pending, doc_analysed] None None None ''asc'' 0 50 =
     Inr \<lparr>r_leads = [flatten_lead rat_platform doc_analysed], r_total = 1, r_skip = 0, r_limit = 50,
          r_hasMore = False\<rparr>"
  by (simp add: list_leads_eq kept_leads_def window_two passes_unfiltered sample_analysed)

theorem list_only_analysed_witness:
  "list_leads rat_platform [doc_pending, doc_analysed] None None None ''asc'' 0 50 =
     Inr \<lparr>r_leads = [flatten_lead rat_platform doc_analysed], r_total = 1, r_skip = 0, r_limit = 50,
          r_hasMore = False\<rparr> \<and>
   dict_item (flatten_lead rat_platform doc_analysed) ''hasOutput'' = Inr (VBool True) \<and>
   \<not> analysed doc_pending \<and>
   flatten_lead rat_platform doc_pending \<notin> set [flatten_lead rat_platform doc_analysed]"
  using sample_analysed(4) list_sample list_only_analysed [OF list_sample] by simp

lemma letter_chars:
  "char_of (80 :: nat) = CHR ''P''" "char_of (85 :: nat) = CHR ''U''" "char_of (82 :: nat) = CHR ''R''"
  "char_of (67 :: nat) = CHR ''C''" "char_of (72 :: nat) = CHR ''H''" "char_of (65 :: nat) = CHR ''A''"
  "char_of (83 :: nat) = CHR ''S''" "char_of (69 :: nat) = CHR ''E''"
  by (simp_all add: char_of_def bit_0)

lemma upper_purchase:
  "upper ''purchase'' = Some ''PURCHASE''" "upper ''PURCHASE'' = Some ''PURCHASE''"
  by (simp_all add: upper.simps upper_char_def letter_chars)

lemma window_desc:
  "list_window rat_platform [doc_analysed, doc_lower] None ''desc'' = [doc_analysed, doc_lower]"
  by (simp add: list_window_def find_sort_limit_def mongo_query_def sample_keys sample_order)

lemma list_sample_intent:
  "list_leads rat_platform [doc_analysed, doc_lower] None (Some ''purchase'') None ''desc'' 0 50 =
     Inr \<lparr>r_leads = [flatten_lead rat_platform doc_analysed], r_total = 1, r_skip = 0, r_limit = 50,
          r_hasMore = False\<rparr>"
  "list_leads rat_platform [doc_analysed, doc_lower] None (Some ''PURCHASE'') None ''desc'' 0 50 =
     Inr \<lparr>r_leads = [flatten_lead rat_platform doc_analysed], r_total = 1, r_skip = 0, r_limit = 50,
          r_hasMore = False\<rparr>"
  by (simp_all add: list_leads_eq kept_leads_def window_desc passes_intent flatten_lead_hasOutput_item
        sample_analysed sample_intents upper_purchase)

lemma list_sample_no_intent:
  "list_leads rat_platform [doc_analysed, doc_lower] None (Some []) None ''desc'' 0 50 =
     Inr \<lparr>r_leads = [flatten_lead rat_platform doc_analysed, flatten_lead rat_platform doc_lower],
          r_total = 2, r_skip = 0, r_limit = 50, r_hasMore = False\<rparr>"
  "list_leads rat_platform [doc_analysed, doc_lower] None None None ''desc'' 0 50 =
     Inr \<lparr>r_leads = [flatten_lead rat_platform doc_analysed, flatten_lead rat_platform doc_lower],
          r_total = 2, r_skip = 0, r_limit = 50, r_hasMore = False\<rparr>"
  by (simp_all add: list_leads_eq kept_leads_def window_desc passes_intent flatten_lead_hasOutput_item
        sample_analysed)

theorem list_intent_filter_witness:
  "(''desc'' = ''asc'' \<or> ''desc'' = ''desc'') \<and> (0::int) \<le> 0 \<and> (1::int) \<le> 50 \<and> (50::int) \<le> 200 \<and>
   (\<exists>r. list_leads rat_platform [doc_analysed, doc_lower] None (Some ''purchase'') None ''desc'' 0 50 = Inr r \<and>
        r_total r = 1 \<and> r_leads r = [flatten_lead rat_platform doc_analysed]) \<and>
   (\<exists>r. list_leads rat_platform [doc_analysed, doc_lower] None (Some []) None ''desc'' 0 50 = Inr r \<and>
        r_total r = 2 \<and>
        r_leads r = [flatten_lead rat_platform doc_analysed, flatten_lead rat_platform doc_lower]) \<and>
   list_leads rat_platform [doc_analysed, doc_lower] None (Some []) None ''desc'' 0 50 =
     list_leads rat_platform [doc_analysed, doc_lower] None None None ''desc'' 0 50 \<and>
   ''purchase'' \<noteq> [] \<and> ''PURCHASE'' \<noteq> [] \<and> upper ''purchase'' = upper ''PURCHASE'' \<and>
   list_leads rat_platform [doc_analysed, doc_lower] None (Some ''purchase'') None ''desc'' 0 50 =
     list_leads rat_platform [doc_analysed, doc_lower] None (Some ''PURCHASE'') None ''desc'' 0 50 \<and>
   list_leads rat_platform [doc_analysed, doc_lower] None (Some ''purchase'') None ''desc'' 0 50 =
     Inr \<lparr>r_leads = [flatten_lead rat_platform doc_analysed], r_total = 1, r_skip = 0, r_limit = 50,
          r_hasMore = False\<rparr> \<and>
   flatten_lead rat_platform doc_analysed \<in> set [flatten_lead rat_platform doc_analysed] \<and>
   dict_item (flatten_lead rat_platform doc_analysed) ''intent'' = Inr (VStr ''PURCHASE'') \<and>
   upper ''purchase'' = Some ''PURCHASE'' \<and> upper ''PURCHASE'' = Some ''PURCHASE''"
  using
    list_intent_filter [where sort_order = "''desc''" and skip = 0 and limit = 50 and P = rat_platform
      and col = "[doc_analysed, doc_lower]" and search = None and intent = "Some ''purchase''"
      and ?q1.0 = "''purchase''" and ?q2.0 = "''PURCHASE''"
      and res = "\<lparr>r_leads = [flatten_lead rat_platform doc_analysed], r_total = 1, r_skip = 0,
                   r_limit = 50, r_hasMore = False\<rparr>"
      and lead = "flatten_lead rat_platform doc_analysed" and s = "''PURCHASE''"]
    list_intent_filter [where sort_order = "''desc''" and skip = 0 and limit = 50 and P = rat_platform
      and col = "[doc_analysed, doc_lower]" and search = None and intent = "Some []"
      and ?q1.0 = "''purchase''" and ?q2.0 = "''PURCHASE''"
      and res = "\<lparr>r_leads = [flatten_lead rat_platform doc_analysed], r_total = 1, r_skip = 0,
                   r_limit = 50, r_hasMore = False\<rparr>"
      and lead = "flatten_lead rat_platform doc_analysed" and s = "''PURCHASE''"]
  by (simp add: list_sample_intent list_sample_no_intent upper_purchase sample_intents window_desc
        flatten_lead_hasOutput_item sample_analysed)

lemma window_lower:
  "list_window rat_platform [doc_lower] None ''desc'' = [doc_lower]"
  by (simp add: list_window_def find_sort_limit_def mongo_query_def)

text \<open>
  C5 as stated fails: a lead stored with the intent \<^verbatim>\<open>purchase\<close> has output and equals
  the query \<^verbatim>\<open>PURCHASE\<close> up to letter case, and the list result does not include it.
\<close>

theorem list_intent_stored_lower_case:
  "list_leads rat_platform [doc_lower] None (Some ''PURCHASE'') None ''desc'' 0 50 =
     Inr \<lparr>r_leads = [], r_total = 0, r_skip = 0, r_limit = 50, r_hasMore = False\<rparr> \<and>
   dict_item (flatten_lead rat_platform doc_lower) ''hasOutput'' = Inr (VBool True) \<and>
   dict_item (flatten_lead rat_platform doc_lower) ''intent'' = Inr (VStr ''purchase'') \<and>
   upper ''purchase'' = upper ''PURCHASE''"
proof -
  have "\<not> passes rat_platform (Some ''PURCHASE'') None (flatten_lead rat_platform doc_lower)"
    using sample_intents(2) [of rat_platform]
    by (simp add: passes_def dict_item_def upper_purchase split: option.splits)
  then have "kept_leads rat_platform [doc_lower] None (Some ''PURCHASE'') None ''desc'' = []"
    by (simp add: kept_leads_def window_lower)
  then show ?thesis
    by (simp add: list_leads_eq flatten_lead_hasOutput_item sample_analysed sample_intents upper_purchase)
qed

section \<open>Statistics\<close>

lemma count_incr_sum:
  "sum_list (map snd (count_incr P k h)) = sum_list (map snd h) + 1"
  by (induction h) auto

lemma stats_step_counts:
  assumes "stats_step P lead acc = Inr acc'"
  shows "total acc' = total acc + 1"
    and "sum_list (map snd (intent_counts acc')) = sum_list (map snd (intent_counts acc)) + 1"
  using assms
  by (auto simp: stats_step_def and_then_def Let_def count_incr_sum split: sum.splits if_splits)

lemma stats_loop_counts:
  assumes "stats_loop P docs acc = Inr acc'"
  shows "total acc' = total acc + int (length (filter analysed docs)) \<and>
         sum_list (map snd (intent_counts acc')) =
           sum_list (map snd (intent_counts acc)) + int (length (filter analysed docs))"
  using assms
proof (induction docs arbitrary: acc)
  case Nil
  then show ?case by simp
next
  case (Cons d docs)
  show ?case
  proof (cases "analysed d")
    case False
    with Cons.prems have "stats_loop P docs acc = Inr acc'"
      by (simp add: Let_def flatten_lead_hasOutput_item)
    from Cons.IH [OF this] False show ?thesis by simp
  next
    case True
    with Cons.prems obtain acc1 where s: "stats_step P (flatten_lead P d) acc = Inr acc1"
      and l: "stats_loop P docs acc1 = Inr acc'"
      by (auto simp: Let_def flatten_lead_hasOutput_item split: sum.splits)
    from Cons.IH [OF l] stats_step_counts [OF s] True show ?thesis by simp
  qed
qed

lemma stats_loop_pending:
  assumes "\<forall>d \<in> set docs. \<not> analysed d"
  shows "stats_loop P docs acc = Inr acc"
  using assms by (induction docs) (simp_all add: Let_def flatten_lead_hasOutput_item)

lemma num_add_total:
  assumes "\<forall>n. float_of_int P n \<noteq> None"
  shows "\<exists>r. num_add P a b = Inr r"
  using assms by (cases a; cases b) (auto split: option.splits)

lemma py_iadd_number:
  assumes "\<forall>n. float_of_int P n \<noteq> None" and "is_number v"
  shows "\<exists>r. py_iadd P acc (py_or P v (VInt 0)) = Inr r"
proof -
  from assms(2) have "\<exists>n. num_of_val (py_or P v (VInt 0)) = Some n"
    by (cases v) (auto simp: py_or_def)
  then obtain n where "num_of_val (py_or P v (VInt 0)) = Some n" ..
  with num_add_total [OF assms(1), of acc n] show ?thesis
    by (simp add: py_iadd_def)
qed

lemma is_nat_int_number: "is_nat_int v \<Longrightarrow> is_number v"
  by (cases v) auto

lemma stats_step_total:
  assumes "\<forall>n. float_of_int P n \<noteq> None" and "lead_typed lead"
  shows "\<exists>acc'. stats_step P lead acc = Inr acc'"
proof -
  from assms(2) obtain q c m i where f:
    "map_of lead ''qualified'' = Some q" 
    "map_of lead ''confidence'' = Some c" "is_number c"
    "map_of lead ''messageLength'' = Some m" "is_number m"
    "map_of lead ''intent'' = Some i" "is_str i"
    by (auto simp: lead_typed_def field_is_def is_nat_int_number split: option.splits)
  from py_iadd_number [OF assms(1) f(3)] obtain cs where
    cs: "py_iadd P (confidence_sum acc) (py_or P c (VInt 0)) = Inr cs" by blast
  from py_iadd_number [OF assms(1) f(5)] obtain ms where
    ms: "py_iadd P (message_sum acc) (py_or P m (VInt 0)) = Inr ms" by blast
  from f(7) have h: "hashable i" by (cases i) auto
  show ?thesis
    using f cs ms h by (simp add: stats_step_def and_then_def dict_item_def dict_get_def Let_def)
qed

lemma stats_loop_total:
  assumes "\<forall>n. float_of_int P n \<noteq> None" and "\<forall>d \<in> set docs. raw_typed d"
  shows "\<exists>acc'. stats_loop P docs acc = Inr acc'"
  using assms(2)
proof (induction docs arbitrary: acc)
  case Nil
  show ?case by simp
next
  case (Cons d docs)
  then have "lead_typed (flatten_lead P d)"
    by (simp add: raw_typed_lead_typed)
  from stats_step_total [OF assms(1) this] obtain acc1 where
    s: "stats_step P (flatten_lead P d) acc = Inr acc1" by blast
  from Cons obtain acc2 where "stats_loop P docs acc1 = Inr acc2" by fastforce
  moreover from Cons obtain acc3 where "stats_loop P docs acc = Inr acc3" by fastforce
  ultimately show ?case
    using s by (simp add: Let_def flatten_lead_hasOutput_item)
qed

lemma get_stats_Inr:
  assumes "get_stats P col = Inr r"
  obtains acc where
    "stats_loop P (find_limit col QAll 1000)
       \<lparr>total = 0, qualified_count = 0, confidence_sum = NInt 0, message_sum = NInt 0,
        intent_counts = []\<rparr> = Inr acc"
    and "s_total r = total acc"
    and "s_intentBreakdown r = (if total acc = 0 then [] else intent_counts acc)"
    and "s_qualified r + s_notQualified r = s_total r"
  using assms
  by (auto simp: get_stats_def and_then_def split: sum.splits if_splits option.splits)

text \<open>
  C10. Every stats response is consistent: \<^verbatim>\<open>qualified + notQualified = total\<close>, the
  counts of \<^verbatim>\<open>intentBreakdown\<close> add up to \<^verbatim>\<open>total\<close>, and \<^verbatim>\<open>total\<close> is the number
  of analysed leads among the scanned documents. When the scan finds no analysed lead the
  response is the all-zero shape with an empty \<^verbatim>\<open>intentBreakdown\<close>. A response is
  produced whenever the scanned documents have the types of the data model (and the float
  conversions do not overflow).
\<close>

theorem stats_consistent:
  "(\<forall>r. get_stats P col = Inr r \<longrightarrow>
      s_qualified r + s_notQualified r = s_total r \<and>
      sum_list (map snd (s_intentBreakdown r)) = s_total r \<and>
      s_total r = int (length (filter analysed (find_limit col QAll 1000)))) \<and>
   ((\<forall>d \<in> set (find_limit col QAll 1000). \<not> analysed d) \<longrightarrow> get_stats P col = Inr zero_stats) \<and>
   ((\<forall>d \<in> set (find_limit col QAll 1000). raw_typed d) \<and> (\<forall>n. float_of_int P n \<noteq> None) \<and>
    (\<forall>x n k. round_div P x n k \<noteq> None) \<longrightarrow> (\<exists>r. get_stats P col = Inr r))"
proof (intro conjI allI impI)
  fix r
  assume "get_stats P col = Inr r"
  then obtain acc where l: "stats_loop P (find_limit col QAll 1000)
       \<lparr>total = 0, qualified_count = 0, confidence_sum = NInt 0, message_sum = NInt 0,
        intent_counts = []\<rparr> = Inr acc"
    and t: "s_total r = total acc"
    and b: "s_intentBreakdown r = (if total acc = 0 then [] else intent_counts acc)"
    and q: "s_qualified r + s_notQualified r = s_total r"
    by (rule get_stats_Inr)
  from stats_loop_counts [OF l]
  have c: "total acc = int (length (filter analysed (find_limit col QAll 1000)))"
    and s: "sum_list (map snd (intent_counts acc)) = total acc"
    by simp_all
  show "s_qualified r + s_notQualified r = s_total r" by (rule q)
  show "sum_list (map snd (s_intentBreakdown r)) = s_total r"
    using b s t by simp
  show "s_total r = int (length (filter analysed (find_limit col QAll 1000)))"
    using t c by simp
next
  assume "\<forall>d \<in> set (find_limit col QAll 1000). \<not> analysed d"
  then show "get_stats P col = Inr zero_stats"
    by (simp add: get_stats_def and_then_def stats_loop_pending zero_stats_def)
next
  assume a: "(\<forall>d \<in> set (find_limit col QAll 1000). raw_typed d) \<and> (\<forall>n. float_of_int P n \<noteq> None) \<and>
    (\<forall>x n k. round_div P x n k \<noteq> None)"
  then obtain acc where "stats_loop P (find_limit col QAll 1000)
       \<lparr>total = 0, qualified_count = 0, confidence_sum = NInt 0, message_sum = NInt 0,
        intent_counts = []\<rparr> = Inr acc"
    using stats_loop_total by blast
  moreover from a obtain rate where "round_div P (NInt (qualified_count acc)) (total acc) 3 = Some rate"
    by fastforce
  moreover from a obtain conf where "round_div P (confidence_sum acc) (total acc) 3 = Some conf"
    by fastforce
  moreover from a obtain msgs where "round_div P (message_sum acc) (total acc) 1 = Some msgs"
    by fastforce
  ultimately show "\<exists>r. get_stats P col = Inr r"
    by (simp add: get_stats_def and_then_def)
qed


lemma rat_platform_total:
  "\<forall>n. float_of_int rat_platform n \<noteq> None" "\<forall>x n k. round_div rat_platform x n k \<noteq> None"
  by (simp_all add: rat_platform_def)

lemma sample_raw_typed: "raw_typed doc_analysed" "raw_typed doc_pending" "raw_typed doc_lower"
  by (simp_all add: raw_typed_def absent_or_def null_or_def output_typed_def
        doc_analysed_def doc_pending_def doc_lower_def)

theorem stats_consistent_witness:
  "raw_typed doc_analysed \<and> raw_typed doc_pending \<and> raw_typed doc_lower \<and>
   (\<forall>n. float_of_int rat_platform n \<noteq> None) \<and> (\<forall>x n k. round_div rat_platform x n k \<noteq> None) \<and>
   (\<exists>r. get_stats rat_platform [doc_analysed, doc_pending, doc_lower] = Inr r \<and>
        s_qualified r + s_notQualified r = s_total r \<and>
        sum_list (map snd (s_intentBreakdown r)) = s_total r \<and> s_total r = 2) \<and>
   \<not> analysed doc_pending \<and> get_stats rat_platform [doc_pending] = Inr zero_stats"
proof -
  have w: "find_limit [doc_analysed, doc_pending, doc_lower] QAll 1000 = [doc_analysed, doc_pending, doc_lower]"
    "find_limit [doc_pending] QAll 1000 = [doc_pending]"
    by (simp_all add: find_limit_def)
  have z: "get_stats rat_platform [doc_pending] = Inr zero_stats"
    using stats_consistent [of rat_platform "[doc_pending]"] by (simp add: w sample_analysed)
  obtain r where r: "get_stats rat_platform [doc_analysed, doc_pending, doc_lower] = Inr r"
    using stats_consistent [of rat_platform "[doc_analysed, doc_pending, doc_lower]"]
    by (auto simp: w sample_raw_typed rat_platform_total)
  then have "s_qualified r + s_notQualified r = s_total r \<and>
        sum_list (map snd (s_intentBreakdown r)) = s_total r \<and> s_total r = 2"
    using stats_consistent [of rat_platform "[doc_analysed, doc_pending, doc_lower]"]
    by (simp add: w sample_analysed)
  with r z show ?thesis
    using sample_raw_typed rat_platform_total sample_analysed(4) by blast
qed

text \<open>
  Outside the data model the scan can raise instead of answering: a confidence that is a
  string cannot be added to the running sum.
\<close>

lemma stats_non_numeric_confidence:
  "get_stats rat_platform [[(''output'', VDict [(''confidence'', VStr ''high'')])]] = Inl TypeError"
  by code_simp

end
